theory Spec2Isabelle
  imports Complex_Main
begin

section \<open>Python exceptions\<close>

text \<open>
  The routines of \<^verbatim>\<open>pyrad.proc.process_aux\<close> either return or raise.  A raise is the
  left injection of a sum type; the constructor is the Python exception class and, where
  the class carries a message or a name, its argument.
\<close>

datatype error =
    ValueError string
  | NameError string
  | KeyError string
  | IndexError
  | AttributeError string
  | TypeError

section \<open>The operation registry: \<^verbatim>\<open>get_process_type\<close>\<close>

text \<open>
  Lines 31 to 118.  The chain of \<^verbatim>\<open>if\<close>/\<^verbatim>\<open>elif\<close> comparisons is kept in the order of
  the source; \<^verbatim>\<open>dsformat\<close> starts as \<^verbatim>\<open>'VOL'\<close> and only two branches assign it again.
  The final \<^verbatim>\<open>else\<close> raises \<^verbatim>\<open>ValueError\<close> with the message concatenated with the name.
\<close>

definition get_process_type :: "string \<Rightarrow> error + (string \<times> string)" where
  "get_process_type dataset_type =
    (let dsformat = ''VOL'' in
     if dataset_type = ''RAW'' then Inr (''process_raw'', dsformat)
     else if dataset_type = ''NCVOL'' then Inr (''process_save_radar'', dsformat)
     else if dataset_type = ''PWR'' then Inr (''process_signal_power'', dsformat)
     else if dataset_type = ''SNR'' then Inr (''process_snr'', dsformat)
     else if dataset_type = ''RHOHV_CORRECTION''
       then Inr (''process_correct_noise_rhohv'', dsformat)
     else if dataset_type = ''BIAS_CORRECTION'' then Inr (''process_correct_bias'', dsformat)
     else if dataset_type = ''L'' then Inr (''process_l'', dsformat)
     else if dataset_type = ''CDR'' then Inr (''process_cdr'', dsformat)
     else if dataset_type = ''SAN'' then Inr (''process_echo_id'', dsformat)
     else if dataset_type = ''ECHO_FILTER'' then Inr (''process_echo_filter'', dsformat)
     else if dataset_type = ''SNR_FILTER'' then Inr (''process_filter_snr'', dsformat)
     else if dataset_type = ''VIS_FILTER'' then Inr (''process_filter_visibility'', dsformat)
     else if dataset_type = ''PHIDP0_ESTIMATE''
       then Inr (''process_estimate_phidp0'', dsformat)
     else if dataset_type = ''PHIDP0_CORRECTION''
       then Inr (''process_correct_phidp0'', dsformat)
     else if dataset_type = ''PHIDP_SMOOTH_1W''
       then Inr (''process_smooth_phidp_single_window'', dsformat)
     else if dataset_type = ''PHIDP_SMOOTH_2W''
       then Inr (''process_smooth_phidp_double_window'', dsformat)
     else if dataset_type = ''PHIDP_KDP_MAESAKA''
       then Inr (''process_phidp_kdp_Maesaka'', dsformat)
     else if dataset_type = ''PHIDP_KDP_LP'' then Inr (''process_phidp_kdp_lp'', dsformat)
     else if dataset_type = ''KDP_LEASTSQUARE_1W''
       then Inr (''process_kdp_leastsquare_single_window'', dsformat)
     else if dataset_type = ''KDP_LEASTSQUARE_2W''
       then Inr (''process_kdp_leastsquare_double_window'', dsformat)
     else if dataset_type = ''ATTENUATION'' then Inr (''process_attenuation'', dsformat)
     else if dataset_type = ''RAINRATE'' then Inr (''process_rainrate'', dsformat)
     else if dataset_type = ''HYDROCLASS'' then Inr (''process_hydroclass'', dsformat)
     else if dataset_type = ''SELFCONSISTENCY_KDP_PHIDP''
       then Inr (''process_selfconsistency_kdp_phidp'', dsformat)
     else if dataset_type = ''SELFCONSISTENCY_BIAS''
       then Inr (''process_selfconsistency_bias'', dsformat)
     else if dataset_type = ''RHOHV_RAIN'' then Inr (''process_rhohv_rain'', dsformat)
     else if dataset_type = ''ZDR_RAIN'' then Inr (''process_zdr_rain'', dsformat)
     else if dataset_type = ''MONITORING_RHOHV''
       then Inr (''process_monitoring_rhohv'', dsformat)
     else if dataset_type = ''MONITORING_ZDR''
       then Inr (''process_monitoring_zdr'', dsformat)
     else if dataset_type = ''SUN_HITS'' then Inr (''process_sun_hits'', ''SUN_HITS'')
     else if dataset_type = ''POINT_MEASUREMENT''
       then Inr (''process_point_measurement'', ''TIMESERIES'')
     else Inl (ValueError (''ERROR: Unknown dataset type '' @ dataset_type)))"

text \<open>
  The recognized set: the left-hand sides of the comparisons of lines 51 to 112, in
  order.
\<close>

definition recognized_dataset_types :: "string list" where
  "recognized_dataset_types =
    [''RAW'', ''NCVOL'', ''PWR'', ''SNR'', ''RHOHV_CORRECTION'', ''BIAS_CORRECTION'', ''L'',
     ''CDR'', ''SAN'', ''ECHO_FILTER'', ''SNR_FILTER'', ''VIS_FILTER'', ''PHIDP0_ESTIMATE'',
     ''PHIDP0_CORRECTION'', ''PHIDP_SMOOTH_1W'', ''PHIDP_SMOOTH_2W'', ''PHIDP_KDP_MAESAKA'',
     ''PHIDP_KDP_LP'', ''KDP_LEASTSQUARE_1W'', ''KDP_LEASTSQUARE_2W'', ''ATTENUATION'',
     ''RAINRATE'', ''HYDROCLASS'', ''SELFCONSISTENCY_KDP_PHIDP'', ''SELFCONSISTENCY_BIAS'',
     ''RHOHV_RAIN'', ''ZDR_RAIN'', ''MONITORING_RHOHV'', ''MONITORING_ZDR'', ''SUN_HITS'',
     ''POINT_MEASUREMENT'']"

section \<open>Values, arrays and dictionaries\<close>

text \<open>
  A finite float64 is the real number it stands for, so a Python float is a
  \<^typ>\<open>real\<close>; infinities and NaN are outside the model.  Comparisons, \<^verbatim>\<open>np.min\<close> and
  \<^verbatim>\<open>np.argmin\<close> are exact on floats.  The arithmetic of lines 284 to 309 rounds: its
  subtraction, absolute value and addition are parameters of the model (section
  \<open>Functions of other packages\<close>), so that nothing is assumed of how they round.  The
  geometry of lines 258 to 266 is written over the reals.  A one-dimensional numpy
  array is a \<^typ>\<open>real list\<close>, a two-dimensional one a list of rows.

  \<^verbatim>\<open>bindE\<close> sequences two steps, the second of which runs only when the first did not
  raise.
\<close>

definition bindE :: "error + 'a \<Rightarrow> ('a \<Rightarrow> error + 'b) \<Rightarrow> error + 'b" where
  "bindE m f = (case m of Inl e \<Rightarrow> Inl e | Inr x \<Rightarrow> f x)"

text \<open>
  \<^verbatim>\<open>np.min\<close> folds the binary minimum over the array and raises \<^verbatim>\<open>ValueError\<close> on an
  empty one.
\<close>

fun np_min :: "real list \<Rightarrow> error + real" where
  "np_min [] =
     Inl (ValueError ''zero-size array to reduction operation minimum which has no identity'')"
| "np_min (x # xs) = Inr (fold min xs x)"

text \<open>
  \<^verbatim>\<open>np.argmin\<close> returns the index of the first occurrence of the minimum: a scan that
  replaces the best index only on a strictly smaller element.  It raises \<^verbatim>\<open>ValueError\<close>
  on an empty array.
\<close>

fun argmin_scan :: "real list \<Rightarrow> nat \<Rightarrow> real \<Rightarrow> nat \<Rightarrow> nat" where
  "argmin_scan [] i best ibest = ibest"
| "argmin_scan (x # xs) i best ibest =
     (if x < best then argmin_scan xs (Suc i) x i else argmin_scan xs (Suc i) best ibest)"

fun np_argmin :: "real list \<Rightarrow> error + nat" where
  "np_argmin [] = Inl (ValueError ''attempt to get argmin of an empty sequence'')"
| "np_argmin (x # xs) = Inr (argmin_scan xs 1 x 0)"

text \<open>
  The sum of two one-dimensional arrays, with the addition of two floats as the
  argument \<^verbatim>\<open>add\<close>: elementwise when the lengths agree, broadcast when one of them
  has length one, \<^verbatim>\<open>ValueError\<close> otherwise (the message is numpy's up to the two
  shapes that numpy appends to it).
\<close>

definition np_add ::
  "(real \<Rightarrow> real \<Rightarrow> real) \<Rightarrow> real list \<Rightarrow> real list \<Rightarrow> error + real list" where
  "np_add add xs ys =
     (if length xs = length ys then Inr (map2 add xs ys)
      else if length xs = 1 then Inr (map (\<lambda>y. add (hd xs) y) ys)
      else if length ys = 1 then Inr (map (\<lambda>x. add x (hd ys)) xs)
      else Inl (ValueError ''operands could not be broadcast together''))"

text \<open>
  Indexing with a non-negative index (the indices of this module come from
  \<^verbatim>\<open>np.argmin\<close>): \<^verbatim>\<open>IndexError\<close> out of range.  All rows of a two-dimensional
  array have the same length, so that the second index is checked against the
  length of the row read.
\<close>

definition getitem :: "'a list \<Rightarrow> nat \<Rightarrow> error + 'a" where
  "getitem xs i = (if i < length xs then Inr (xs ! i) else Inl IndexError)"

definition getitem2 :: "real list list \<Rightarrow> nat \<Rightarrow> nat \<Rightarrow> error + real" where
  "getitem2 rows i j =
     (if i < length rows \<and> j < length (rows ! i)
      then Inr (rows ! i ! j) else Inl IndexError)"

text \<open>
  The step configuration \<^verbatim>\<open>dscfg\<close> is a dictionary from option names to values; the
  values this module reads are booleans, floats and a list of strings
  (\<^verbatim>\<open>dscfg['datatype']\<close>).  A missing key raises \<^verbatim>\<open>KeyError\<close>.  A value of another
  Python type than the one the configuration surface documents is outside the model
  and answered with \<^verbatim>\<open>TypeError\<close>.
\<close>

datatype pyval = PyBool bool | PyFloat real | PyStrList "string list"

type_synonym dscfg = "string \<rightharpoonup> pyval"

definition get_bool :: "dscfg \<Rightarrow> string \<Rightarrow> error + bool" where
  "get_bool d k =
     (case d k of None \<Rightarrow> Inl (KeyError k) | Some (PyBool b) \<Rightarrow> Inr b | Some _ \<Rightarrow> Inl TypeError)"

definition get_float :: "dscfg \<Rightarrow> string \<Rightarrow> error + real" where
  "get_float d k =
     (case d k of None \<Rightarrow> Inl (KeyError k) | Some (PyFloat x) \<Rightarrow> Inr x | Some _ \<Rightarrow> Inl TypeError)"

definition get_strlist :: "dscfg \<Rightarrow> string \<Rightarrow> error + string list" where
  "get_strlist d k =
     (case d k of None \<Rightarrow> Inl (KeyError k) | Some (PyStrList l) \<Rightarrow> Inr l | Some _ \<Rightarrow> Inl TypeError)"

section \<open>The radar volume and the point extraction record\<close>

text \<open>
  What \<^verbatim>\<open>process_point_measurement\<close> reads of the \<^verbatim>\<open>Radar\<close> object.  The field
  \<^verbatim>\<open>azimuth_data\<close> is \<^verbatim>\<open>radar.azimuth['data']\<close> and so on; \<^verbatim>\<open>fields_data\<close> maps a field name
  to \<^verbatim>\<open>radar.fields[name]['data'].data\<close>, indexed \<^verbatim>\<open>[ray, bin]\<close>.  The origin
  (\<^verbatim>\<open>longitude\<close>, \<^verbatim>\<open>latitude\<close>, \<^verbatim>\<open>altitude\<close>) is stored by Py-ART as arrays of one
  element; each is written here as that element, so that \<^verbatim>\<open>alt_radar[0]\<close> of line 267
  is the value itself.
\<close>

record radar =
  fields_data :: "string \<rightharpoonup> real list list"
  longitude_data :: real
  latitude_data :: real
  altitude_data :: real
  azimuth_data :: "real list"
  elevation_data :: "real list"
  range_data :: "real list"
  time_data :: "real list"
  time_units :: string
  time_calendar :: string

record projparams =
  proj :: string
  lon_0 :: real
  lat_0 :: real

text \<open>
  The dictionary \<^verbatim>\<open>new_dataset\<close> of lines 317 to 327, one field for each key (the keys
  \<^verbatim>\<open>value\<close>, \<^verbatim>\<open>datatype\<close> and \<^verbatim>\<open>time\<close> carry the suffix \<^verbatim>\<open>_k\<close>).  The three coordinate
  entries are Python lists of three floats.
\<close>

record 't point_record =
  value_k :: real
  datatype_k :: string
  time_k :: 't
  point_coordinates_WGS84_lon_lat_alt :: "real list"
  antenna_coordinates_az_el_r :: "real list"
  used_antenna_coordinates_az_el_r :: "real list"

section \<open>Functions of other packages\<close>

text \<open>
  \<^verbatim>\<open>process_point_measurement\<close> calls functions that this repository imports from
  \<^verbatim>\<open>pyrad.io.io_aux\<close>, Py-ART, netCDF4 and the Python built-ins.  They are parameters of
  the model: every theorem below holds for any choice of them.
  \<^item> \<^verbatim>\<open>get_datatype_fields\<close> splits a data type descriptor into
    \<^verbatim>\<open>(datagroup, datatype, dataset, product)\<close> and \<^verbatim>\<open>get_fieldname_pyart\<close> maps a data
    type to a Py-ART field name; both may raise.
  \<^item> \<^verbatim>\<open>geographic_to_cartesian\<close> and \<^verbatim>\<open>cartesian_to_antenna\<close> are
    \<^verbatim>\<open>pyart.core.geographic_to_cartesian\<close> and \<^verbatim>\<open>pyart.core.cartesian_to_antenna\<close>;
    the arrays of one element they return are written as that element (lines 273 to
    275 take element 0 of each).
  \<^item> \<^verbatim>\<open>num2date\<close> is \<^verbatim>\<open>netCDF4.num2date\<close>; the type of the date it returns is the
    parameter \<^typ>\<open>'t\<close>.
  \<^item> \<^verbatim>\<open>str\<close> is Python's conversion of a float to its decimal text.
  \<^item> \<^verbatim>\<open>float_sub\<close>, \<^verbatim>\<open>float_abs\<close> and \<^verbatim>\<open>float_add\<close> are the float64 operations that
    numpy applies elementwise for \<^verbatim>\<open>-\<close>, \<^verbatim>\<open>np.abs\<close> and \<^verbatim>\<open>+\<close>: the result of each is
    the float that the hardware returns, which for \<^verbatim>\<open>-\<close> and \<^verbatim>\<open>+\<close> is in general not
    the exact difference or sum.
\<close>

record 't externals =
  get_datatype_fields :: "string \<Rightarrow> error + (string \<times> string \<times> string \<times> string)"
  get_fieldname_pyart :: "string \<Rightarrow> error + string"
  geographic_to_cartesian :: "real \<Rightarrow> real \<Rightarrow> projparams \<Rightarrow> real \<times> real"
  cartesian_to_antenna :: "real \<Rightarrow> real \<Rightarrow> real \<Rightarrow> real \<times> real \<times> real"
  num2date :: "real \<Rightarrow> string \<Rightarrow> string \<Rightarrow> error + 't"
  str :: "real \<Rightarrow> string"
  float_sub :: "real \<Rightarrow> real \<Rightarrow> real"
  float_abs :: "real \<Rightarrow> real"
  float_add :: "real \<Rightarrow> real \<Rightarrow> real"

section \<open>\<^verbatim>\<open>process_point_measurement\<close>\<close>

text \<open>
  Lines 246 to 282: the requested point, as
  \<^verbatim>\<open>(lon, lat, alt, r, az, el)\<close>.  In the branch \<^verbatim>\<open>dscfg['latlon']\<close> the point is
  projected and converted to antenna coordinates.  In the other branch the three
  configuration values are read and line 281 then calls \<^verbatim>\<open>antenna_to_cartesian\<close>, a
  name that the module neither defines nor imports (the imports are lines 19 to 28;
  the geographic branch reaches its two conversions through \<^verbatim>\<open>pyart.core\<close>): Python
  raises \<^verbatim>\<open>NameError\<close> there.

  \<^verbatim>\<open>x ** 2.\<close> is the square (also of a negative \<^verbatim>\<open>x\<close>), written \<open>x ^ 2\<close>.  Division is
  that of \<^typ>\<open>real\<close>, where \<open>x / 0 = 0\<close>; the theorems about line 264 assume
  \<open>cos elrad \<noteq> 0\<close>.
\<close>

definition target_coordinates ::
  "'t externals \<Rightarrow> dscfg \<Rightarrow> radar \<Rightarrow> error + (real \<times> real \<times> real \<times> real \<times> real \<times> real)"
where
  "target_coordinates ext dscfg radar =
    (let projparams = \<lparr>proj = ''pyart_aeqd'', lon_0 = longitude_data radar,
                        lat_0 = latitude_data radar\<rparr> in
     bindE (get_bool dscfg ''latlon'') (\<lambda>latlon.
     if latlon then
       bindE (get_float dscfg ''lon'') (\<lambda>lon.
       bindE (get_float dscfg ''lat'') (\<lambda>lat.
       bindE (get_float dscfg ''alt'') (\<lambda>alt.
       let (x, y) = geographic_to_cartesian ext lon lat projparams in
       bindE (get_bool dscfg ''truealt'') (\<lambda>truealt.
       bindE
         (if \<not> truealt then
            (let ke = 4 / 3; a = 6378100; re = a * ke in
             bindE (get_float dscfg ''ele'') (\<lambda>ele.
             let elrad = ele * pi / 180;
                 r_ground = sqrt (x ^ 2 + y ^ 2);
                 r = r_ground / cos elrad;
                 alt_radar = altitude_data radar
                   + sqrt (r ^ 2 + re ^ 2 + 2 * r * re * sin elrad) - re
             in Inr alt_radar))
          else get_float dscfg ''alt'')
         (\<lambda>alt_radar.
       let (r, az, el) = cartesian_to_antenna ext x y (alt_radar - altitude_data radar)
       in Inr (lon, lat, alt, r, az, el))))))
     else
       bindE (get_float dscfg ''rng'') (\<lambda>r.
       bindE (get_float dscfg ''azi'') (\<lambda>az.
       bindE (get_float dscfg ''ele'') (\<lambda>el.
       Inl (NameError ''antenna_to_cartesian''))))))"

text \<open>
  The diagnostic of lines 286 to 289, 294 to 297 and 302 to 305; \<^verbatim>\<open>what\<close> is
  \<^verbatim>\<open>azimuth\<close>, \<^verbatim>\<open>elevation\<close> or \<^verbatim>\<open>range bin\<close>.
\<close>

definition no_bin_message ::
  "'t externals \<Rightarrow> real \<Rightarrow> real \<Rightarrow> real \<Rightarrow> string \<Rightarrow> real \<Rightarrow> string" where
  "no_bin_message ext az el r what d =
     '' No radar bin found for point (az, el, r):('' @ str ext az @ '', '' @ str ext el
       @ '', '' @ str ext r @ ''). Minimum distance to radar '' @ what @ '' ''
       @ str ext d @ '' larger than tolerance''"

text \<open>
  Lines 284 to 329: the three gates, the selection of the ray and of the bin, and the
  record.  The result is the list of warnings emitted and the value returned
  (\<^verbatim>\<open>None\<close> or the dictionary).  A tolerance is read from \<^verbatim>\<open>dscfg\<close> after the minimum
  it is compared with has been computed, as in the source.  The distances
  \<^verbatim>\<open>np.abs(array - value)\<close> and their sum on line 308 are computed with the float
  operations of \<^verbatim>\<open>ext\<close>.
\<close>

definition resolve_bin ::
  "'t externals \<Rightarrow> dscfg \<Rightarrow> radar \<Rightarrow> string \<Rightarrow> real list list
     \<Rightarrow> real \<times> real \<times> real \<times> real \<times> real \<times> real
     \<Rightarrow> error + (string list \<times> 't point_record option)"
where
  "resolve_bin ext dscfg radar datatype data c =
    (case c of (lon, lat, alt, r, az, el) \<Rightarrow>
     bindE (np_min (map (\<lambda>a. float_abs ext (float_sub ext a az)) (azimuth_data radar))) (\<lambda>d_az.
     bindE (get_float dscfg ''AziTol'') (\<lambda>AziTol.
     if d_az > AziTol then Inr ([no_bin_message ext az el r ''azimuth'' d_az], None)
     else
     bindE (np_min (map (\<lambda>e. float_abs ext (float_sub ext e el)) (elevation_data radar))) (\<lambda>d_el.
     bindE (get_float dscfg ''EleTol'') (\<lambda>EleTol.
     if d_el > EleTol then Inr ([no_bin_message ext az el r ''elevation'' d_el], None)
     else
     bindE (np_min (map (\<lambda>x. float_abs ext (float_sub ext x r)) (range_data radar))) (\<lambda>d_r.
     bindE (get_float dscfg ''RngTol'') (\<lambda>RngTol.
     if d_r > RngTol then Inr ([no_bin_message ext az el r ''range bin'' d_r], None)
     else
     bindE (np_add (float_add ext)
                   (map (\<lambda>a. float_abs ext (float_sub ext a az)) (azimuth_data radar))
                   (map (\<lambda>e. float_abs ext (float_sub ext e el)) (elevation_data radar))) (\<lambda>d_ray.
     bindE (np_argmin d_ray) (\<lambda>ind_ray.
     bindE (np_argmin (map (\<lambda>x. float_abs ext (float_sub ext x r)) (range_data radar))) (\<lambda>ind_r.
     bindE (getitem2 data ind_ray ind_r) (\<lambda>val.
     bindE (getitem (time_data radar) ind_ray) (\<lambda>t.
     bindE (num2date ext t (time_units radar) (time_calendar radar)) (\<lambda>time.
     bindE (getitem (azimuth_data radar) ind_ray) (\<lambda>used_az.
     bindE (getitem (elevation_data radar) ind_ray) (\<lambda>used_el.
     bindE (getitem (range_data radar) ind_r) (\<lambda>used_r.
     Inr ([], Some \<lparr>value_k = val, datatype_k = datatype, time_k = time,
                     point_coordinates_WGS84_lon_lat_alt = [lon, lat, alt],
                     antenna_coordinates_az_el_r = [az, el, r],
                     used_antenna_coordinates_az_el_r = [used_az, used_el, used_r]\<rparr>)
     ))))))))))))))))"

text \<open>
  Lines 234 to 244 and the whole routine.  \<^verbatim>\<open>radar\<close> defaults to \<^verbatim>\<open>None\<close>, on which
  \<^verbatim>\<open>radar.fields\<close> raises \<^verbatim>\<open>AttributeError\<close>.
\<close>

definition process_point_measurement ::
  "'t externals \<Rightarrow> int \<Rightarrow> dscfg \<Rightarrow> radar option
     \<Rightarrow> error + (string list \<times> 't point_record option)"
where
  "process_point_measurement ext procstatus dscfg radar =
    (if procstatus \<noteq> 1 then Inr ([], None)
     else
     bindE (get_strlist dscfg ''datatype'') (\<lambda>descr.
     bindE (getitem descr 0) (\<lambda>descr0.
     bindE (get_datatype_fields ext descr0) (\<lambda>(datagroup, datatype, dataset, product).
     bindE (get_fieldname_pyart ext datatype) (\<lambda>field_name.
     case radar of
       None \<Rightarrow> Inl (AttributeError ''fields'')
     | Some rd \<Rightarrow>
         (case fields_data rd field_name of
            None \<Rightarrow>
              Inr ([''Unable to extract point measurement information. ''
                     @ ''Field not available''], None)
          | Some data \<Rightarrow>
              bindE (target_coordinates ext dscfg rd)
                (resolve_bin ext dscfg rd datatype data)))))))"

section \<open>\<^verbatim>\<open>process_raw\<close> and \<^verbatim>\<open>process_save_radar\<close>\<close>

text \<open>
  Both routines return \<^verbatim>\<open>deepcopy(radar)\<close>.  What they promise is about sharing, so
  here the \<^verbatim>\<open>Radar\<close> object lives in a store: the object is the table of its
  attributes, each holding the address of an array, and the store maps an address to
  the contents of the array at it.  An entry of the table is named by the path to
  the array (\<^verbatim>\<open>azimuth['data']\<close>, \<^verbatim>\<open>fields['reflectivity']['data']\<close>); the
  dictionaries on the path belong to the object and are copied with the table.  The
  contents of an array are its rows (a one-dimensional array has one row).
  Addresses below \<^verbatim>\<open>next_addr\<close> are allocated.

  \<^verbatim>\<open>copy.deepcopy\<close> of the Python library copies every array the object reaches into
  a freshly allocated cell.  Its memo dictionary maps an array already copied to its
  copy, so that two attributes that share an array share the copy as well.
\<close>

type_synonym addr = nat

record heap =
  mem :: "addr \<Rightarrow> real list list"
  next_addr :: addr

type_synonym radar_obj = "(string \<times> addr) list"

fun deepcopy_slots ::
  "(addr \<rightharpoonup> addr) \<Rightarrow> heap \<Rightarrow> radar_obj \<Rightarrow> radar_obj \<times> (addr \<rightharpoonup> addr) \<times> heap" where
  "deepcopy_slots memo h [] = ([], memo, h)"
| "deepcopy_slots memo h ((k, a) # rest) =
     (case memo a of
        Some a' \<Rightarrow>
          (case deepcopy_slots memo h rest of
             (rest', memo', h') \<Rightarrow> ((k, a') # rest', memo', h'))
      | None \<Rightarrow>
          (let a' = next_addr h;
               h1 = h\<lparr>mem := (mem h)(a' := mem h a), next_addr := Suc (next_addr h)\<rparr>
           in case deepcopy_slots (memo(a \<mapsto> a')) h1 rest of
                (rest', memo', h') \<Rightarrow> ((k, a') # rest', memo', h')))"

definition deepcopy :: "heap \<Rightarrow> radar_obj \<Rightarrow> radar_obj \<times> heap" where
  "deepcopy h obj = (case deepcopy_slots Map.empty h obj of (obj', memo, h') \<Rightarrow> (obj', h'))"

text \<open>
  Lines 121 to 148 and 151 to 178.  The result is the value returned and the store
  after the call; \<^verbatim>\<open>deepcopy(None)\<close> is \<^verbatim>\<open>None\<close>.
\<close>

definition process_raw ::
  "int \<Rightarrow> dscfg \<Rightarrow> radar_obj option \<Rightarrow> heap \<Rightarrow> radar_obj option \<times> heap" where
  "process_raw procstatus dscfg radar h =
     (if procstatus \<noteq> 1 then (None, h)
      else (case radar of
              None \<Rightarrow> (None, h)
            | Some obj \<Rightarrow>
                (case deepcopy h obj of (new_dataset, h') \<Rightarrow> (Some new_dataset, h'))))"

definition process_save_radar ::
  "int \<Rightarrow> dscfg \<Rightarrow> radar_obj option \<Rightarrow> heap \<Rightarrow> radar_obj option \<times> heap" where
  "process_save_radar procstatus dscfg radar h =
     (if procstatus \<noteq> 1 then (None, h)
      else (case radar of
              None \<Rightarrow> (None, h)
            | Some obj \<Rightarrow>
                (case deepcopy h obj of (new_dataset, h') \<Rightarrow> (Some new_dataset, h'))))"

section \<open>Notions of the specification\<close>

text \<open>
  The argmin with ties resolved by the lowest index, as the specification words it:
  \<open>i\<close> is an index of \<open>xs\<close>, no element is smaller than \<open>xs ! i\<close>, and every element
  before \<open>i\<close> is strictly larger.
\<close>

definition first_argmin :: "real list \<Rightarrow> nat \<Rightarrow> bool" where
  "first_argmin xs i \<longleftrightarrow>
     i < length xs \<and> (\<forall>j < length xs. xs ! i \<le> xs ! j) \<and> (\<forall>j < i. xs ! i < xs ! j)"

text \<open>
  The beam-height model of section 4.2 of the specification, from its words: the
  effective radius is \<open>re = (4/3) * a\<close> with \<open>a\<close> = 6 378 100 m, the elevation is
  converted to radians, the slant range is \<open>r = r_ground / cos el\<close> and the height
  above the radar is \<open>sqrt (r\<^sup>2 + re\<^sup>2 + 2 r re sin el) - re\<close>.
\<close>

definition beam_height_above_radar :: "real \<Rightarrow> real \<Rightarrow> real" where
  "beam_height_above_radar r_ground elevation_deg =
     (let re = (4 / 3) * 6378100;
          el = elevation_deg * pi / 180;
          r = r_ground / cos el
      in sqrt (r ^ 2 + re ^ 2 + 2 * r * re * sin el) - re)"

section \<open>Sample inputs\<close>

text \<open>
  Concrete inputs at which the theorems below are instantiated.  \<^verbatim>\<open>sample_externals\<close>
  is one choice of the parameters: the descriptor is its own data type, every data
  type names the field \<^verbatim>\<open>reflectivity\<close>, the projection subtracts the origin, the
  antenna conversion returns \<^verbatim>\<open>(r, az, el) = (z, x, y)\<close>, the date is the number
  itself.  With the radar at the origin and \<^verbatim>\<open>truealt\<close> set, the configured
  \<^verbatim>\<open>(lon, lat, alt)\<close> is then the requested \<^verbatim>\<open>(az, el, r)\<close>.

  The sample arithmetic rounds: \<^verbatim>\<open>sample_round\<close> takes the exact difference or sum to
  the nearest multiple of \<open>2 ^ -52\<close>, the spacing of float64 between 1 and 2.  It is
  exact on whole numbers and, like float64, it returns \<open>-1\<close> for \<open>-1 - 2 ^ -60\<close> and 1
  for \<open>1 - 2 ^ -60\<close>.  \<^verbatim>\<open>sample_str\<close> prints a whole number as Python prints the float
  (\<^verbatim>\<open>25.0\<close>); \<^verbatim>\<open>decimal\<close> writes the digits of a natural number (\<^verbatim>\<open>fuel\<close> bounds their
  count).
\<close>

definition sample_round :: "real \<Rightarrow> real" where
  "sample_round x = real_of_int (round (x * 2 ^ 52)) / 2 ^ 52"

fun decimal :: "nat \<Rightarrow> nat \<Rightarrow> string" where
  "decimal 0 n = []"
| "decimal (Suc fuel) n =
     (if n < 10 then [''0123456789'' ! n]
      else decimal fuel (n div 10) @ [''0123456789'' ! (n mod 10)])"

definition sample_str :: "real \<Rightarrow> string" where
  "sample_str x =
     (if x < 0 then ''-'' else []) @ decimal 20 (nat \<lfloor>\<bar>x\<bar>\<rfloor>) @ ''.0''"

definition sample_externals :: "real externals" where
  "sample_externals =
     \<lparr>get_datatype_fields = (\<lambda>s. Inr (''RADAR'', s, ''D'', ''P'')),
      get_fieldname_pyart = (\<lambda>dt. Inr ''reflectivity''),
      geographic_to_cartesian = (\<lambda>lon lat p. (lon - lon_0 p, lat - lat_0 p)),
      cartesian_to_antenna = (\<lambda>x y z. (z, x, y)),
      num2date = (\<lambda>t units calendar. Inr t),
      str = sample_str,
      float_sub = (\<lambda>x y. sample_round (x - y)),
      float_abs = (\<lambda>x. \<bar>x\<bar>),
      float_add = (\<lambda>x y. sample_round (x + y))\<rparr>"

text \<open>
  A volume with the given rays \<^verbatim>\<open>(azimuth, elevation)\<close> and range bins, the radar at
  the origin; the field \<^verbatim>\<open>reflectivity\<close> holds \<^verbatim>\<open>10 * ray + bin\<close>.
\<close>

definition sample_radar :: "(real \<times> real) list \<Rightarrow> real list \<Rightarrow> radar" where
  "sample_radar rays bins =
     \<lparr>fields_data =
        [''reflectivity'' \<mapsto>
           map (\<lambda>i. map (\<lambda>j. 10 * real i + real j) [0 ..< length bins]) [0 ..< length rays]],
      longitude_data = 0, latitude_data = 0, altitude_data = 0,
      azimuth_data = map fst rays, elevation_data = map snd rays,
      range_data = bins, time_data = map (\<lambda>i. 60 * real i) [0 ..< length rays],
      time_units = ''seconds since 2000-01-01T00:00:00Z'',
      time_calendar = ''gregorian''\<rparr>"

text \<open>
  A geographic-mode configuration with \<^verbatim>\<open>truealt\<close> set, and an antenna-mode
  configuration; both with the three tolerances.
\<close>

definition geographic_cfg :: "real \<Rightarrow> real \<Rightarrow> real \<Rightarrow> real \<Rightarrow> real \<Rightarrow> real \<Rightarrow> dscfg" where
  "geographic_cfg lon lat alt AziTol EleTol RngTol =
     [''datatype'' \<mapsto> PyStrList [''dBZ''], ''latlon'' \<mapsto> PyBool True,
      ''truealt'' \<mapsto> PyBool True, ''lon'' \<mapsto> PyFloat lon, ''lat'' \<mapsto> PyFloat lat,
      ''alt'' \<mapsto> PyFloat alt, ''AziTol'' \<mapsto> PyFloat AziTol, ''EleTol'' \<mapsto> PyFloat EleTol,
      ''RngTol'' \<mapsto> PyFloat RngTol]"

definition antenna_cfg :: "real \<Rightarrow> real \<Rightarrow> real \<Rightarrow> real \<Rightarrow> real \<Rightarrow> real \<Rightarrow> dscfg" where
  "antenna_cfg azi ele rng AziTol EleTol RngTol =
     [''datatype'' \<mapsto> PyStrList [''dBZ''], ''latlon'' \<mapsto> PyBool False,
      ''azi'' \<mapsto> PyFloat azi, ''ele'' \<mapsto> PyFloat ele, ''rng'' \<mapsto> PyFloat rng,
      ''AziTol'' \<mapsto> PyFloat AziTol, ''EleTol'' \<mapsto> PyFloat EleTol,
      ''RngTol'' \<mapsto> PyFloat RngTol]"

section \<open>Auxiliary lemmas\<close>

lemma bindE_Inl: "bindE (Inl e) f = Inl e"
  by (simp add: bindE_def)

lemma bindE_Inr: "bindE (Inr x) f = f x"
  by (simp add: bindE_def)

lemma fold_min_eq_Min: "fold min xs (x::real) = Min (set (x # xs))"
  using Min.set_eq_fold [of x xs] by simp

lemma np_min_eq_Min: "xs \<noteq> [] \<Longrightarrow> np_min xs = Inr (Min (set xs))"
  using fold_min_eq_Min by (cases xs) simp_all

lemma np_min_map: "xs \<noteq> [] \<Longrightarrow> np_min (map f xs) = Inr (Min (f ` set xs))"
  using np_min_eq_Min [of "map f xs"] by simp

lemma get_float_Some: "d k = Some (PyFloat x) \<Longrightarrow> get_float d k = Inr x"
  by (simp add: get_float_def)

lemma process_phase_unfold:
  assumes "dscfg ''datatype'' = Some (PyStrList (d # ds))"
    and "get_datatype_fields ext d = Inr (datagroup, datatype, dataset, product)"
    and "get_fieldname_pyart ext datatype = Inr field_name"
  shows "process_point_measurement ext 1 dscfg (Some rd) =
     (case fields_data rd field_name of
        None \<Rightarrow> Inr ([''Unable to extract point measurement information. ''
                       @ ''Field not available''], None)
      | Some data \<Rightarrow> bindE (target_coordinates ext dscfg rd)
                       (resolve_bin ext dscfg rd datatype data))"
  using assms
  by (simp add: process_point_measurement_def get_strlist_def getitem_def bindE_Inr)

lemma resolve_bin_azimuth_gate:
  assumes "np_min (map (\<lambda>a. float_abs ext (float_sub ext a az)) (azimuth_data rd)) = Inr d_az"
    and "dscfg ''AziTol'' = Some (PyFloat AziTol)" and "d_az > AziTol"
  shows "resolve_bin ext dscfg rd datatype data (lon, lat, alt, r, az, el) =
     Inr ([no_bin_message ext az el r ''azimuth'' d_az], None)"
  using assms by (simp add: resolve_bin_def get_float_Some bindE_Inr)

lemma resolve_bin_elevation_gate:
  assumes "np_min (map (\<lambda>a. float_abs ext (float_sub ext a az)) (azimuth_data rd)) = Inr d_az"
    and "dscfg ''AziTol'' = Some (PyFloat AziTol)" and "d_az \<le> AziTol"
    and "np_min (map (\<lambda>e. float_abs ext (float_sub ext e el)) (elevation_data rd)) = Inr d_el"
    and "dscfg ''EleTol'' = Some (PyFloat EleTol)" and "d_el > EleTol"
  shows "resolve_bin ext dscfg rd datatype data (lon, lat, alt, r, az, el) =
     Inr ([no_bin_message ext az el r ''elevation'' d_el], None)"
  using assms by (simp add: resolve_bin_def get_float_Some bindE_Inr)

lemma resolve_bin_range_gate:
  assumes "np_min (map (\<lambda>a. float_abs ext (float_sub ext a az)) (azimuth_data rd)) = Inr d_az"
    and "dscfg ''AziTol'' = Some (PyFloat AziTol)" and "d_az \<le> AziTol"
    and "np_min (map (\<lambda>e. float_abs ext (float_sub ext e el)) (elevation_data rd)) = Inr d_el"
    and "dscfg ''EleTol'' = Some (PyFloat EleTol)" and "d_el \<le> EleTol"
    and "np_min (map (\<lambda>x. float_abs ext (float_sub ext x r)) (range_data rd)) = Inr d_r"
    and "dscfg ''RngTol'' = Some (PyFloat RngTol)" and "d_r > RngTol"
  shows "resolve_bin ext dscfg rd datatype data (lon, lat, alt, r, az, el) =
     Inr ([no_bin_message ext az el r ''range bin'' d_r], None)"
  using assms by (simp add: resolve_bin_def get_float_Some bindE_Inr)

lemma resolve_bin_gates_passed:
  assumes "np_min (map (\<lambda>a. float_abs ext (float_sub ext a az)) (azimuth_data rd)) = Inr d_az"
    and "dscfg ''AziTol'' = Some (PyFloat AziTol)" and "d_az \<le> AziTol"
    and "np_min (map (\<lambda>e. float_abs ext (float_sub ext e el)) (elevation_data rd)) = Inr d_el"
    and "dscfg ''EleTol'' = Some (PyFloat EleTol)" and "d_el \<le> EleTol"
    and "np_min (map (\<lambda>x. float_abs ext (float_sub ext x r)) (range_data rd)) = Inr d_r"
    and "dscfg ''RngTol'' = Some (PyFloat RngTol)" and "d_r \<le> RngTol"
    and "np_add (float_add ext) (map (\<lambda>a. float_abs ext (float_sub ext a az)) (azimuth_data rd))
               (map (\<lambda>e. float_abs ext (float_sub ext e el)) (elevation_data rd)) = Inr d_ray"
    and "np_argmin d_ray = Inr ind_ray"
    and "np_argmin (map (\<lambda>x. float_abs ext (float_sub ext x r)) (range_data rd)) = Inr ind_r"
    and "ind_ray < length data" and "ind_r < length (data ! ind_ray)"
    and "ind_ray < length (time_data rd)" and "ind_ray < length (azimuth_data rd)"
    and "ind_ray < length (elevation_data rd)" and "ind_r < length (range_data rd)"
  shows "resolve_bin ext dscfg rd datatype data (lon, lat, alt, r, az, el) =
        bindE (num2date ext (time_data rd ! ind_ray) (time_units rd) (time_calendar rd))
          (\<lambda>time. Inr ([], Some \<lparr>value_k = data ! ind_ray ! ind_r, datatype_k = datatype,
             time_k = time,
             point_coordinates_WGS84_lon_lat_alt = [lon, lat, alt],
             antenna_coordinates_az_el_r = [az, el, r],
             used_antenna_coordinates_az_el_r =
               [azimuth_data rd ! ind_ray, elevation_data rd ! ind_ray,
                range_data rd ! ind_r]\<rparr>))"
  using assms
  by (simp add: resolve_bin_def get_float_Some bindE_Inr getitem_def getitem2_def)

lemma argmin_scan_first:
  assumes "length p = i" "ibest < i" "p ! ibest = best"
    "\<forall>j < i. best \<le> p ! j" "\<forall>j < ibest. best < p ! j"
  shows "first_argmin (p @ xs) (argmin_scan xs i best ibest)"
  using assms
proof (induction xs arbitrary: p i best ibest)
  case Nil
  then show ?case by (simp add: first_argmin_def)
next
  case (Cons x xs)
  show ?case
  proof (cases "x < best")
    case True
    have "first_argmin ((p @ [x]) @ xs) (argmin_scan xs (Suc i) x i)"
    proof (rule Cons.IH)
      show "length (p @ [x]) = Suc i" using Cons.prems by simp
      show "i < Suc i" by simp
      show "(p @ [x]) ! i = x" using Cons.prems(1) by (simp add: nth_append)
      show "\<forall>j<Suc i. x \<le> (p @ [x]) ! j"
        using Cons.prems True by (auto simp: nth_append less_Suc_eq intro: less_imp_le order.strict_trans2)
      show "\<forall>j<i. x < (p @ [x]) ! j"
        using Cons.prems True by (auto simp: nth_append intro: order.strict_trans2)
    qed
    with True show ?thesis by simp
  next
    case False
    have "first_argmin ((p @ [x]) @ xs) (argmin_scan xs (Suc i) best ibest)"
    proof (rule Cons.IH)
      show "length (p @ [x]) = Suc i" using Cons.prems by simp
      show "ibest < Suc i" using Cons.prems by simp
      show "(p @ [x]) ! ibest = best" using Cons.prems by (simp add: nth_append)
      show "\<forall>j<Suc i. best \<le> (p @ [x]) ! j"
        using Cons.prems False by (auto simp: nth_append less_Suc_eq)
      show "\<forall>j<ibest. best < (p @ [x]) ! j"
        using Cons.prems by (auto simp: nth_append)
    qed
    with False show ?thesis by simp
  qed
qed

lemma np_argmin_first: "xs \<noteq> [] \<Longrightarrow> \<exists>i. np_argmin xs = Inr i \<and> first_argmin xs i"
proof (cases xs)
  case Nil
  assume "xs \<noteq> []" with Nil show ?thesis by simp
next
  case (Cons x rest)
  have "first_argmin ([x] @ rest) (argmin_scan rest 1 x 0)"
    by (rule argmin_scan_first) simp_all
  with Cons show ?thesis by simp
qed

lemma first_argmin_unique: "first_argmin xs i \<Longrightarrow> first_argmin xs j \<Longrightarrow> i = j"
  unfolding first_argmin_def by (metis linorder_neqE_nat not_less)

lemma np_add_same_length:
  "length xs = length ys \<Longrightarrow>
     np_add add (map f xs) (map g ys) = Inr (map2 (\<lambda>x y. add (f x) (g y)) xs ys)"
  by (simp add: np_add_def zip_map_map split_def)

lemma resolve_bin_selects:
  assumes len: "length (elevation_data rd) = length (azimuth_data rd)"
      "length (time_data rd) = length (azimuth_data rd)"
      "length data = length (azimuth_data rd)"
      "\<forall>row \<in> set data. length row = length (range_data rd)"
    and ne: "azimuth_data rd \<noteq> []" "range_data rd \<noteq> []"
    and tol: "dscfg ''AziTol'' = Some (PyFloat AziTol)"
      "dscfg ''EleTol'' = Some (PyFloat EleTol)"
      "dscfg ''RngTol'' = Some (PyFloat RngTol)"
    and pass: "Min ((\<lambda>a. float_abs ext (float_sub ext a az)) ` set (azimuth_data rd)) \<le> AziTol"
      "Min ((\<lambda>e. float_abs ext (float_sub ext e el)) ` set (elevation_data rd)) \<le> EleTol"
      "Min ((\<lambda>x. float_abs ext (float_sub ext x r)) ` set (range_data rd)) \<le> RngTol"
  shows "\<exists>ind_ray ind_r.
      first_argmin (map2 (\<lambda>a e. float_add ext (float_abs ext (float_sub ext a az))
                (float_abs ext (float_sub ext e el))) (azimuth_data rd) (elevation_data rd))
        ind_ray \<and>
      first_argmin (map (\<lambda>x. float_abs ext (float_sub ext x r)) (range_data rd)) ind_r \<and>
      resolve_bin ext dscfg rd datatype data (lon, lat, alt, r, az, el) =
        bindE (num2date ext (time_data rd ! ind_ray) (time_units rd) (time_calendar rd))
          (\<lambda>time. Inr ([], Some \<lparr>value_k = data ! ind_ray ! ind_r, datatype_k = datatype,
             time_k = time,
             point_coordinates_WGS84_lon_lat_alt = [lon, lat, alt],
             antenna_coordinates_az_el_r = [az, el, r],
             used_antenna_coordinates_az_el_r =
               [azimuth_data rd ! ind_ray, elevation_data rd ! ind_ray,
                range_data rd ! ind_r]\<rparr>))"
proof -
  let ?dist = "map2 (\<lambda>a e. float_add ext (float_abs ext (float_sub ext a az))
                (float_abs ext (float_sub ext e el))) (azimuth_data rd) (elevation_data rd)"
  let ?rdist = "map (\<lambda>x. float_abs ext (float_sub ext x r)) (range_data rd)"
  have ene: "elevation_data rd \<noteq> []" using len(1) ne(1) by auto
  have "?dist \<noteq> []" using len(1) ne(1) by (cases "azimuth_data rd"; cases "elevation_data rd") auto
  then obtain ind_ray where ray: "np_argmin ?dist = Inr ind_ray" "first_argmin ?dist ind_ray"
    using np_argmin_first by blast
  have "?rdist \<noteq> []" using ne(2) by simp
  then obtain ind_r where bin: "np_argmin ?rdist = Inr ind_r" "first_argmin ?rdist ind_r"
    using np_argmin_first by blast
  have iray: "ind_ray < length (azimuth_data rd)"
    using ray(2) len(1) by (simp add: first_argmin_def)
  have ir: "ind_r < length (range_data rd)"
    using bin(2) by (simp add: first_argmin_def)
  have "data ! ind_ray \<in> set data" using iray len(3) by simp
  then have row: "ind_r < length (data ! ind_ray)" using len(4) ir by simp
  have add: "np_add (float_add ext) (map (\<lambda>a. float_abs ext (float_sub ext a az)) (azimuth_data rd))
               (map (\<lambda>e. float_abs ext (float_sub ext e el)) (elevation_data rd)) = Inr ?dist"
    using len(1) by (simp add: np_add_same_length)
  have len_t: "ind_ray < length (time_data rd)" "ind_ray < length data"
      "ind_ray < length (elevation_data rd)"
    using iray len by simp_all
  have "resolve_bin ext dscfg rd datatype data (lon, lat, alt, r, az, el) =
        bindE (num2date ext (time_data rd ! ind_ray) (time_units rd) (time_calendar rd))
          (\<lambda>time. Inr ([], Some \<lparr>value_k = data ! ind_ray ! ind_r, datatype_k = datatype,
             time_k = time,
             point_coordinates_WGS84_lon_lat_alt = [lon, lat, alt],
             antenna_coordinates_az_el_r = [az, el, r],
             used_antenna_coordinates_az_el_r =
               [azimuth_data rd ! ind_ray, elevation_data rd ! ind_ray,
                range_data rd ! ind_r]\<rparr>))"
    by (rule resolve_bin_gates_passed
          [OF np_min_map [OF ne(1)] tol(1) pass(1) np_min_map [OF ene] tol(2) pass(2)
              np_min_map [OF ne(2)] tol(3) pass(3) add ray(1) bin(1) len_t(2) row len_t(1)
              iray len_t(3) ir])
  with ray(2) bin(2) show ?thesis by blast
qed


lemma deepcopy_slots_frame:
  "deepcopy_slots memo h slots = (s', m', h') \<Longrightarrow>
     next_addr h \<le> next_addr h' \<and> (\<forall>a < next_addr h. mem h' a = mem h a)"
proof (induction slots arbitrary: memo h s' m' h')
  case Nil
  then show ?case by simp
next
  case (Cons slot rest)
  obtain k a where slot: "slot = (k, a)" by (cases slot)
  show ?case
  proof (cases "memo a")
    case (Some a')
    with Cons.prems slot obtain r' where "deepcopy_slots memo h rest = (r', m', h')"
      by (auto split: prod.splits)
    then show ?thesis by (rule Cons.IH)
  next
    case None
    define h1 where "h1 = h\<lparr>mem := (mem h)(next_addr h := mem h a), next_addr := Suc (next_addr h)\<rparr>"
    from Cons.prems slot None obtain r' where
      "deepcopy_slots (memo(a \<mapsto> next_addr h)) h1 rest = (r', m', h')"
      by (auto simp: Let_def h1_def split: prod.splits)
    then have "next_addr h1 \<le> next_addr h' \<and> (\<forall>b < next_addr h1. mem h' b = mem h1 b)"
      by (rule Cons.IH)
    then show ?thesis by (auto simp: h1_def)
  qed
qed

lemma deepcopy_slots_copy:
  assumes "deepcopy_slots memo h slots = (s', m', h')"
    and "\<forall>a a'. memo a = Some a' \<longrightarrow> n0 \<le> a' \<and> a' < next_addr h \<and> mem h a' = c a"
    and "\<forall>a < n0. mem h a = c a"
    and "n0 \<le> next_addr h"
    and "\<forall>(k, a) \<in> set slots. a < n0"
  shows "list_all2 (\<lambda>(k, a) (k', a'). k' = k \<and> n0 \<le> a' \<and> a' < next_addr h' \<and> mem h' a' = c a)
           slots s'"
  using assms
proof (induction slots arbitrary: memo h s' m' h')
  case Nil
  then show ?case by simp
next
  case (Cons slot rest)
  obtain k a where slot: "slot = (k, a)" by (cases slot)
  have a_old: "a < n0" using Cons.prems(5) slot by simp
  have rest_old: "\<forall>(k, a) \<in> set rest. a < n0" using Cons.prems(5) by simp
  show ?case
  proof (cases "memo a")
    case (Some a')
    with Cons.prems(1) slot obtain r' where
      run: "deepcopy_slots memo h rest = (r', m', h')" and s': "s' = (k, a') # r'"
      by (auto split: prod.splits)
    have tail: "list_all2 (\<lambda>(k, a) (k', a'). k' = k \<and> n0 \<le> a' \<and> a' < next_addr h' \<and> mem h' a' = c a)
           rest r'"
      using run Cons.prems(2) Cons.prems(3) Cons.prems(4) rest_old by (rule Cons.IH)
    have fr: "next_addr h \<le> next_addr h' \<and> (\<forall>b < next_addr h. mem h' b = mem h b)"
      using run by (rule deepcopy_slots_frame)
    have "n0 \<le> a' \<and> a' < next_addr h \<and> mem h a' = c a"
      using Cons.prems(2) Some by blast
    with fr have "n0 \<le> a' \<and> a' < next_addr h' \<and> mem h' a' = c a" by auto
    with tail show ?thesis by (simp add: slot s')
  next
    case None
    define h1 where "h1 = h\<lparr>mem := (mem h)(next_addr h := mem h a), next_addr := Suc (next_addr h)\<rparr>"
    from Cons.prems(1) slot None obtain r' where
      run: "deepcopy_slots (memo(a \<mapsto> next_addr h)) h1 rest = (r', m', h')"
      and s': "s' = (k, next_addr h) # r'"
      by (auto simp: Let_def h1_def split: prod.splits)
    have ca: "mem h a = c a" using Cons.prems(3) a_old by blast
    have inv1: "\<forall>b b'. (memo(a \<mapsto> next_addr h)) b = Some b' \<longrightarrow>
        n0 \<le> b' \<and> b' < next_addr h1 \<and> mem h1 b' = c b"
    proof (intro allI impI)
      fix b b' assume bb: "(memo(a \<mapsto> next_addr h)) b = Some b'"
      show "n0 \<le> b' \<and> b' < next_addr h1 \<and> mem h1 b' = c b"
      proof (cases "b = a")
        case True
        with bb have "b' = next_addr h" by simp
        with True ca Cons.prems(4) show ?thesis by (simp add: h1_def)
      next
        case False
        with bb have "memo b = Some b'" by simp
        with Cons.prems(2) have "n0 \<le> b' \<and> b' < next_addr h \<and> mem h b' = c b" by blast
        then show ?thesis by (simp add: h1_def)
      qed
    qed
    have inv2: "\<forall>b < n0. mem h1 b = c b"
      using Cons.prems(3) Cons.prems(4) by (auto simp: h1_def)
    have inv3: "n0 \<le> next_addr h1" using Cons.prems(4) by (simp add: h1_def)
    have tail: "list_all2 (\<lambda>(k, a) (k', a'). k' = k \<and> n0 \<le> a' \<and> a' < next_addr h' \<and> mem h' a' = c a)
           rest r'"
      using run inv1 inv2 inv3 rest_old by (rule Cons.IH)
    have fr: "next_addr h1 \<le> next_addr h' \<and> (\<forall>b < next_addr h1. mem h' b = mem h1 b)"
      using run by (rule deepcopy_slots_frame)
    then have "mem h' (next_addr h) = mem h1 (next_addr h)" by (simp add: h1_def)
    then have "mem h' (next_addr h) = c a" using ca by (simp add: h1_def)
    moreover have "next_addr h < next_addr h'" using fr by (simp add: h1_def)
    ultimately show ?thesis using tail Cons.prems(4) by (simp add: slot s')
  qed
qed

lemma deepcopy_props:
  assumes "deepcopy h obj = (new, h')" and "\<forall>(k, a) \<in> set obj. a < next_addr h"
  shows "(\<forall>a < next_addr h. mem h' a = mem h a)"
    and "list_all2 (\<lambda>(k, a) (k', a'). k' = k \<and> next_addr h \<le> a' \<and> a' < next_addr h' \<and> mem h' a' = mem h a)
           obj new"
proof -
  from assms(1) obtain m' where run: "deepcopy_slots Map.empty h obj = (new, m', h')"
    by (auto simp: deepcopy_def split: prod.splits)
  show "\<forall>a < next_addr h. mem h' a = mem h a"
    using deepcopy_slots_frame [OF run] by simp
  show "list_all2 (\<lambda>(k, a) (k', a'). k' = k \<and> next_addr h \<le> a' \<and> a' < next_addr h' \<and> mem h' a' = mem h a)
           obj new"
    using run by (rule deepcopy_slots_copy) (use assms(2) in auto)
qed


lemma target_coordinates_truealt:
  assumes "dscfg ''latlon'' = Some (PyBool True)"
    and "dscfg ''lon'' = Some (PyFloat lon)" and "dscfg ''lat'' = Some (PyFloat lat)"
    and "dscfg ''alt'' = Some (PyFloat alt)"
    and "geographic_to_cartesian ext lon lat
          \<lparr>proj = ''pyart_aeqd'', lon_0 = longitude_data rd, lat_0 = latitude_data rd\<rparr> = (x, y)"
    and "dscfg ''truealt'' = Some (PyBool True)"
    and "cartesian_to_antenna ext x y (alt - altitude_data rd) = (r, az, el)"
  shows "target_coordinates ext dscfg rd = Inr (lon, lat, alt, r, az, el)"
  using assms
  by (simp add: target_coordinates_def get_bool_def get_float_def bindE_Inr)

lemma target_coordinates_elevation_height:
  assumes "dscfg ''latlon'' = Some (PyBool True)"
    and "dscfg ''lon'' = Some (PyFloat lon)" and "dscfg ''lat'' = Some (PyFloat lat)"
    and "dscfg ''alt'' = Some (PyFloat alt)"
    and "geographic_to_cartesian ext lon lat
          \<lparr>proj = ''pyart_aeqd'', lon_0 = longitude_data rd, lat_0 = latitude_data rd\<rparr> = (x, y)"
    and "dscfg ''truealt'' = Some (PyBool False)"
    and "dscfg ''ele'' = Some (PyFloat ele)"
  shows "\<exists>h. h = (altitude_data rd + beam_height_above_radar (sqrt (x ^ 2 + y ^ 2)) ele)
                   - altitude_data rd
           \<and> target_coordinates ext dscfg rd =
               (case cartesian_to_antenna ext x y h of
                  (r, az, el) \<Rightarrow> Inr (lon, lat, alt, r, az, el))"
  using assms
  by (simp add: target_coordinates_def get_bool_def get_float_def bindE_Inr Let_def
      beam_height_above_radar_def power2_eq_square)

lemma target_coordinates_elevation:
  assumes "dscfg ''latlon'' = Some (PyBool True)"
    and "dscfg ''lon'' = Some (PyFloat lon)" and "dscfg ''lat'' = Some (PyFloat lat)"
    and "dscfg ''alt'' = Some (PyFloat alt)"
    and "geographic_to_cartesian ext lon lat
          \<lparr>proj = ''pyart_aeqd'', lon_0 = longitude_data rd, lat_0 = latitude_data rd\<rparr> = (x, y)"
    and "dscfg ''truealt'' = Some (PyBool False)"
    and "dscfg ''ele'' = Some (PyFloat ele)"
    and "cartesian_to_antenna ext x y
           ((altitude_data rd + beam_height_above_radar (sqrt (x ^ 2 + y ^ 2)) ele)
              - altitude_data rd) = (r, az, el)"
  shows "target_coordinates ext dscfg rd = Inr (lon, lat, alt, r, az, el)"
proof -
  from target_coordinates_elevation_height [OF assms(1-7)]
  have "target_coordinates ext dscfg rd =
      (case cartesian_to_antenna ext x y
              ((altitude_data rd + beam_height_above_radar (sqrt (x ^ 2 + y ^ 2)) ele)
                 - altitude_data rd) of
         (r, az, el) \<Rightarrow> Inr (lon, lat, alt, r, az, el))"
    by blast
  then show ?thesis by (simp only: assms(8) prod.case)
qed

lemma target_coordinates_antenna:
  assumes "dscfg ''latlon'' = Some (PyBool False)"
    and "dscfg ''rng'' = Some (PyFloat rng)" and "dscfg ''azi'' = Some (PyFloat azi)"
    and "dscfg ''ele'' = Some (PyFloat ele)"
  shows "target_coordinates ext dscfg rd = Inl (NameError ''antenna_to_cartesian'')"
  using assms
  by (simp add: target_coordinates_def get_bool_def get_float_def bindE_Inr)

lemma sample_cfg_simps:
  "geographic_cfg lon lat alt ta te tr ''datatype'' = Some (PyStrList [''dBZ''])"
  "geographic_cfg lon lat alt ta te tr ''latlon'' = Some (PyBool True)"
  "geographic_cfg lon lat alt ta te tr ''truealt'' = Some (PyBool True)"
  "geographic_cfg lon lat alt ta te tr ''lon'' = Some (PyFloat lon)"
  "geographic_cfg lon lat alt ta te tr ''lat'' = Some (PyFloat lat)"
  "geographic_cfg lon lat alt ta te tr ''alt'' = Some (PyFloat alt)"
  "geographic_cfg lon lat alt ta te tr ''AziTol'' = Some (PyFloat ta)"
  "geographic_cfg lon lat alt ta te tr ''EleTol'' = Some (PyFloat te)"
  "geographic_cfg lon lat alt ta te tr ''RngTol'' = Some (PyFloat tr)"
  by (simp_all add: geographic_cfg_def)

lemma sample_externals_simps:
  "get_datatype_fields sample_externals s = Inr (''RADAR'', s, ''D'', ''P'')"
  "get_fieldname_pyart sample_externals dt = Inr ''reflectivity''"
  "geographic_to_cartesian sample_externals lon lat p = (lon - lon_0 p, lat - lat_0 p)"
  "cartesian_to_antenna sample_externals x y z = (z, x, y)"
  "num2date sample_externals t u c = Inr t"
  "str sample_externals v = sample_str v"
  "float_sub sample_externals v w = sample_round (v - w)"
  "float_abs sample_externals v = \<bar>v\<bar>"
  "float_add sample_externals v w = sample_round (v + w)"
  by (simp_all add: sample_externals_def)

lemma sample_round_of_int: "sample_round (of_int n) = of_int n"
proof -
  have "of_int n * (2::real) ^ 52 = of_int (n * 2 ^ 52)" by simp
  then have "round (of_int n * (2::real) ^ 52) = n * 2 ^ 52"
    by (simp only: round_of_int)
  then show ?thesis by (simp add: sample_round_def)
qed

lemma sample_round_whole:
  "sample_round 0 = 0" "sample_round 1 = 1" "sample_round (- 1) = - 1"
  "sample_round (numeral k) = numeral k" "sample_round (- numeral k) = - numeral k"
  using sample_round_of_int [of 0] sample_round_of_int [of 1] sample_round_of_int [of "- 1"]
    sample_round_of_int [of "numeral k"] sample_round_of_int [of "- numeral k"]
  by simp_all

lemma sample_round_below_minus_one: "sample_round (- 1 - 1 / 2 ^ 60) = - 1"
proof -
  have e: "(- 1 - 1 / 2 ^ 60) * (2::real) ^ 52 = - (2 ^ 52) - 1 / 2 ^ 8"
    by (simp add: field_simps)
  have "round (- ((2::real) ^ 52) - 1 / 2 ^ 8) = - (2 ^ 52)"
    by (rule round_unique') simp
  then show ?thesis by (simp only: sample_round_def e) simp
qed

lemma sample_round_below_one: "sample_round (1 - 1 / 2 ^ 60) = 1"
proof -
  have e: "(1 - 1 / 2 ^ 60) * (2::real) ^ 52 = 2 ^ 52 - 1 / 2 ^ 8"
    by (simp add: field_simps)
  have "round ((2::real) ^ 52 - 1 / 2 ^ 8) = 2 ^ 52"
    by (rule round_unique') simp
  then show ?thesis by (simp only: sample_round_def e) simp
qed

lemma sample_str_values:
  "sample_str 1 = ''1.0''" "sample_str 5 = ''5.0''" "sample_str 8 = ''8.0''"
  "sample_str 9 = ''9.0''" "sample_str 25 = ''25.0''" "sample_str 300 = ''300.0''"
  "sample_str 500 = ''500.0''" "sample_str 800 = ''800.0''"
  unfolding sample_str_def by (simp_all, code_simp+)

lemma sample_target_coordinates:
  "target_coordinates sample_externals (geographic_cfg lon lat alt ta te tr)
     (sample_radar rays bins) = Inr (lon, lat, alt, alt, lon, lat)"
  by (rule target_coordinates_truealt [where x = lon and y = lat])
     (simp_all add: sample_cfg_simps sample_externals_simps sample_radar_def)

lemma process_phase_bin_resolution:
  assumes "dscfg ''datatype'' = Some (PyStrList (d # ds))"
    and "get_datatype_fields ext d = Inr (datagroup, datatype, dataset, product)"
    and "get_fieldname_pyart ext datatype = Inr field_name"
    and "fields_data rd field_name = Some data"
    and "target_coordinates ext dscfg rd = Inr c"
  shows "process_point_measurement ext 1 dscfg (Some rd) = resolve_bin ext dscfg rd datatype data c"
  using process_phase_unfold [where dscfg = dscfg and ext = ext and rd = rd, OF assms(1-3)]
    assms(4,5)
  by (simp add: bindE_Inr)

lemma sample_radar_simps:
  "fields_data (sample_radar rays bins) ''reflectivity'' =
     Some (map (\<lambda>i. map (\<lambda>j. 10 * real i + real j) [0 ..< length bins]) [0 ..< length rays])"
  "azimuth_data (sample_radar rays bins) = map fst rays"
  "elevation_data (sample_radar rays bins) = map snd rays"
  "range_data (sample_radar rays bins) = bins"
  "time_data (sample_radar rays bins) = map (\<lambda>i. 60 * real i) [0 ..< length rays]"
  "altitude_data (sample_radar rays bins) = 0"
  "longitude_data (sample_radar rays bins) = 0"
  "latitude_data (sample_radar rays bins) = 0"
  by (simp_all add: sample_radar_def)

section \<open>The claims\<close>

subsection \<open>C1: the ray and the bin selected\<close>

text \<open>
  Claim C1.  In the PROCESS phase, on a volume whose per-ray arrays have one entry for
  each ray and whose field rows have one entry for each range bin, once the requested
  \<^verbatim>\<open>(az, el, r)\<close> is known and the three minima are within their tolerances, the
  routine selects the ray \<^verbatim>\<open>ind_ray\<close> that is the argmin of
  \<open>\<bar>azimuth\<^sub>i - az\<bar> + \<bar>elevation\<^sub>i - el\<bar>\<close> over the rays (the sum, not each axis on its
  own) and the bin \<^verbatim>\<open>ind_r\<close> that is the argmin of \<open>\<bar>range\<^sub>j - r\<bar>\<close> over the bins, each
  with ties resolved by the lowest index.  The differences, absolute values and sum
  are the floats that the code computes (\<^verbatim>\<open>float_sub\<close>, \<^verbatim>\<open>float_abs\<close>, \<^verbatim>\<open>float_add\<close>),
  so that two rays whose sums round to the same float are a tie.  The routine emits
  no warning, and once \<^verbatim>\<open>num2date\<close> has converted the time of the selected ray, the
  record it returns holds the field value at \<^verbatim>\<open>[ind_ray, ind_r]\<close>, the requested
  coordinates, and as used antenna coordinates the stored azimuth and elevation of the
  selected ray and the stored range of the selected bin.
\<close>

theorem point_measurement_selects_nearest_bin:
  assumes "dscfg ''datatype'' = Some (PyStrList (d # ds))"
    and "get_datatype_fields ext d = Inr (datagroup, datatype, dataset, product)"
    and "get_fieldname_pyart ext datatype = Inr field_name"
    and "fields_data rd field_name = Some data"
    and "target_coordinates ext dscfg rd = Inr (lon, lat, alt, r, az, el)"
    and "length (elevation_data rd) = length (azimuth_data rd)"
    and "length (time_data rd) = length (azimuth_data rd)"
    and "length data = length (azimuth_data rd)"
    and "\<forall>row \<in> set data. length row = length (range_data rd)"
    and "azimuth_data rd \<noteq> []" and "range_data rd \<noteq> []"
    and "dscfg ''AziTol'' = Some (PyFloat AziTol)"
    and "dscfg ''EleTol'' = Some (PyFloat EleTol)"
    and "dscfg ''RngTol'' = Some (PyFloat RngTol)"
    and "Min ((\<lambda>a. float_abs ext (float_sub ext a az)) ` set (azimuth_data rd)) \<le> AziTol"
    and "Min ((\<lambda>e. float_abs ext (float_sub ext e el)) ` set (elevation_data rd)) \<le> EleTol"
    and "Min ((\<lambda>x. float_abs ext (float_sub ext x r)) ` set (range_data rd)) \<le> RngTol"
  shows "\<exists>ind_ray ind_r.
      first_argmin
        (map2 (\<lambda>a e. float_add ext (float_abs ext (float_sub ext a az))
                (float_abs ext (float_sub ext e el)))
           (azimuth_data rd) (elevation_data rd))
        ind_ray \<and>
      first_argmin (map (\<lambda>x. float_abs ext (float_sub ext x r)) (range_data rd)) ind_r \<and>
      process_point_measurement ext 1 dscfg (Some rd) =
        bindE (num2date ext (time_data rd ! ind_ray) (time_units rd) (time_calendar rd))
          (\<lambda>time. Inr ([], Some \<lparr>value_k = data ! ind_ray ! ind_r, datatype_k = datatype,
             time_k = time,
             point_coordinates_WGS84_lon_lat_alt = [lon, lat, alt],
             antenna_coordinates_az_el_r = [az, el, r],
             used_antenna_coordinates_az_el_r =
               [azimuth_data rd ! ind_ray, elevation_data rd ! ind_ray,
                range_data rd ! ind_r]\<rparr>))"
  unfolding process_phase_bin_resolution
    [where dscfg = dscfg and ext = ext and rd = rd, OF assms(1-5)]
  using assms(6-17) by (rule resolve_bin_selects [where dscfg = dscfg])

text \<open>
  C1 at the example of section 8 of the specification: rays \<^verbatim>\<open>(10, 1)\<close> and \<^verbatim>\<open>(10, 5)\<close>,
  bins 500 and 1500, the request \<^verbatim>\<open>(az, el, r) = (10, 4, 1600)\<close>.  The used
  coordinates are \<^verbatim>\<open>(10, 5, 1500)\<close>, which differ from the requested ones.

  C1 where rounding decides: rays at azimuth \<open>-1\<close> and 1, the requested azimuth
  \<open>2 ^ -60\<close>.  The exact distances are \<open>1 + 2 ^ -60\<close> and \<open>1 - 2 ^ -60\<close>; both round to
  1, the sums tie and the first ray is selected (used azimuth \<open>-1\<close>).  With the ray
  at \<open>-1\<close> alone and \<^verbatim>\<open>AziTol = 1\<close>, the azimuth gate passes on the rounded distance 1
  and the record is returned.
\<close>

theorem point_measurement_selects_nearest_bin_witness:
  "(\<exists>ind_ray ind_r.
      first_argmin [3, 1] ind_ray \<and> first_argmin [1100, 100] ind_r \<and>
      process_point_measurement sample_externals 1 (geographic_cfg 10 4 1600 10 10 200)
          (Some (sample_radar [(10, 1), (10, 5)] [500, 1500])) =
        Inr ([], Some \<lparr>value_k = [[0, 1], [10, 11]] ! ind_ray ! ind_r, datatype_k = ''dBZ'',
             time_k = [0, 60] ! ind_ray,
             point_coordinates_WGS84_lon_lat_alt = [10, 4, 1600],
             antenna_coordinates_az_el_r = [10, 4, 1600],
             used_antenna_coordinates_az_el_r =
               [[10, 10] ! ind_ray, [1, 5] ! ind_ray, [500, 1500] ! ind_r]\<rparr>))
   \<and> process_point_measurement sample_externals 1 (geographic_cfg 10 4 1600 10 10 200)
          (Some (sample_radar [(10, 1), (10, 5)] [500, 1500])) =
        Inr ([], Some \<lparr>value_k = 11, datatype_k = ''dBZ'', time_k = 60,
             point_coordinates_WGS84_lon_lat_alt = [10, 4, 1600],
             antenna_coordinates_az_el_r = [10, 4, 1600],
             used_antenna_coordinates_az_el_r = [10, 5, 1500]\<rparr>)
   \<and> (\<exists>ind_ray ind_r.
      first_argmin [1, 1] ind_ray \<and> first_argmin [0, 1000] ind_r \<and>
      process_point_measurement sample_externals 1 (geographic_cfg (1 / 2 ^ 60) 0 500 1 1 1)
          (Some (sample_radar [(- 1, 0), (1, 0)] [500, 1500])) =
        Inr ([], Some \<lparr>value_k = [[0, 1], [10, 11]] ! ind_ray ! ind_r, datatype_k = ''dBZ'',
             time_k = [0, 60] ! ind_ray,
             point_coordinates_WGS84_lon_lat_alt = [1 / 2 ^ 60, 0, 500],
             antenna_coordinates_az_el_r = [1 / 2 ^ 60, 0, 500],
             used_antenna_coordinates_az_el_r =
               [[- 1, 1] ! ind_ray, [0, 0] ! ind_ray, [500, 1500] ! ind_r]\<rparr>))
   \<and> process_point_measurement sample_externals 1 (geographic_cfg (1 / 2 ^ 60) 0 500 1 1 1)
          (Some (sample_radar [(- 1, 0), (1, 0)] [500, 1500])) =
        Inr ([], Some \<lparr>value_k = 0, datatype_k = ''dBZ'', time_k = 0,
             point_coordinates_WGS84_lon_lat_alt = [1 / 2 ^ 60, 0, 500],
             antenna_coordinates_az_el_r = [1 / 2 ^ 60, 0, 500],
             used_antenna_coordinates_az_el_r = [- 1, 0, 500]\<rparr>)
   \<and> process_point_measurement sample_externals 1 (geographic_cfg (1 / 2 ^ 60) 0 500 1 1 1)
          (Some (sample_radar [(- 1, 0)] [500, 1500])) =
        Inr ([], Some \<lparr>value_k = 0, datatype_k = ''dBZ'', time_k = 0,
             point_coordinates_WGS84_lon_lat_alt = [1 / 2 ^ 60, 0, 500],
             antenna_coordinates_az_el_r = [1 / 2 ^ 60, 0, 500],
             used_antenna_coordinates_az_el_r = [- 1, 0, 500]\<rparr>)"
proof -
  let ?rd = "sample_radar [(10, 1), (10, 5)] [500, 1500]"
  let ?cfg = "geographic_cfg 10 4 1600 10 10 200"
  let ?data = "map (\<lambda>i. map (\<lambda>j. 10 * real i + real j) [0 ..< length [500, 1500 :: real]])
              [0 ..< length [(10, 1), (10 :: real, 5 :: real)]]"
  let ?rdt = "sample_radar [(- 1, 0), (1, 0)] [500, 1500]"
  let ?cfgt = "geographic_cfg (1 / 2 ^ 60) 0 500 1 1 1"
  let ?datat = "map (\<lambda>i. map (\<lambda>j. 10 * real i + real j) [0 ..< length [500, 1500 :: real]])
              [0 ..< length [(- 1, 0), (1 :: real, 0 :: real)]]"
  let ?rds = "sample_radar [(- 1, 0)] [500, 1500]"
  let ?datas = "map (\<lambda>i. map (\<lambda>j. 10 * real i + real j) [0 ..< length [500, 1500 :: real]])
              [0 ..< length [(- 1 :: real, 0 :: real)]]"
  note ev = sample_radar_simps sample_cfg_simps sample_externals_simps sample_round_whole
    sample_round_below_minus_one [simplified] sample_round_below_one [simplified]
  have h1: "geographic_cfg lon lat alt ta te tr ''datatype'' = Some (PyStrList (''dBZ'' # []))"
    for lon lat alt ta te tr by (simp add: sample_cfg_simps)
  have h2: "get_datatype_fields sample_externals ''dBZ'' = Inr (''RADAR'', ''dBZ'', ''D'', ''P'')"
    and h3: "get_fieldname_pyart sample_externals ''dBZ'' = Inr ''reflectivity''"
    by (simp_all add: sample_externals_simps)
  have h4: "fields_data ?rd ''reflectivity'' = Some ?data"
    and h4t: "fields_data ?rdt ''reflectivity'' = Some ?datat"
    and h4s: "fields_data ?rds ''reflectivity'' = Some ?datas"
    by (rule sample_radar_simps)+
  have h6: "length (elevation_data ?rd) = length (azimuth_data ?rd)"
    and h7: "length (time_data ?rd) = length (azimuth_data ?rd)"
    and h8: "length ?data = length (azimuth_data ?rd)"
    and h9: "\<forall>row \<in> set ?data. length row = length (range_data ?rd)"
    and h10: "azimuth_data ?rd \<noteq> []" and h11: "range_data ?rd \<noteq> []"
    by (simp_all add: sample_radar_simps)
  have h15: "Min ((\<lambda>a. float_abs sample_externals (float_sub sample_externals a 10))
                   ` set (azimuth_data ?rd)) \<le> 10"
    and h16: "Min ((\<lambda>e. float_abs sample_externals (float_sub sample_externals e 4))
                   ` set (elevation_data ?rd)) \<le> 10"
    and h17: "Min ((\<lambda>x. float_abs sample_externals (float_sub sample_externals x 1600))
                   ` set (range_data ?rd)) \<le> 200"
    by (simp_all add: ev)
  note t = point_measurement_selects_nearest_bin
    [where ext = sample_externals and dscfg = ?cfg and rd = ?rd,
     OF h1 h2 h3 h4 sample_target_coordinates h6 h7 h8 h9 h10 h11
        sample_cfg_simps(7) sample_cfg_simps(8) sample_cfg_simps(9) h15 h16 h17]
  have ex: "\<exists>ind_ray ind_r.
      first_argmin [3, 1] ind_ray \<and> first_argmin [1100, 100] ind_r \<and>
      process_point_measurement sample_externals 1 ?cfg (Some ?rd) =
        Inr ([], Some \<lparr>value_k = [[0, 1], [10, 11]] ! ind_ray ! ind_r, datatype_k = ''dBZ'',
             time_k = [0, 60] ! ind_ray,
             point_coordinates_WGS84_lon_lat_alt = [10, 4, 1600],
             antenna_coordinates_az_el_r = [10, 4, 1600],
             used_antenna_coordinates_az_el_r =
               [[10, 10] ! ind_ray, [1, 5] ! ind_ray, [500, 1500] ! ind_r]\<rparr>)"
    using t by (simp add: ev bindE_Inr upt_rec)
  have ev1: "process_point_measurement sample_externals 1 ?cfg (Some ?rd) =
        Inr ([], Some \<lparr>value_k = 11, datatype_k = ''dBZ'', time_k = 60,
             point_coordinates_WGS84_lon_lat_alt = [10, 4, 1600],
             antenna_coordinates_az_el_r = [10, 4, 1600],
             used_antenna_coordinates_az_el_r = [10, 5, 1500]\<rparr>)"
    unfolding process_phase_bin_resolution
      [where dscfg = ?cfg and ext = sample_externals and rd = ?rd,
       OF h1 h2 h3 h4 sample_target_coordinates]
    by (simp add: resolve_bin_def ev get_float_def bindE_Inr np_add_def getitem_def
        getitem2_def upt_rec)
  have g6: "length (elevation_data ?rdt) = length (azimuth_data ?rdt)"
    and g7: "length (time_data ?rdt) = length (azimuth_data ?rdt)"
    and g8: "length ?datat = length (azimuth_data ?rdt)"
    and g9: "\<forall>row \<in> set ?datat. length row = length (range_data ?rdt)"
    and g10: "azimuth_data ?rdt \<noteq> []" and g11: "range_data ?rdt \<noteq> []"
    by (simp_all add: sample_radar_simps)
  have g15: "Min ((\<lambda>a. float_abs sample_externals (float_sub sample_externals a (1 / 2 ^ 60)))
                   ` set (azimuth_data ?rdt)) \<le> 1"
    and g16: "Min ((\<lambda>e. float_abs sample_externals (float_sub sample_externals e 0))
                   ` set (elevation_data ?rdt)) \<le> 1"
    and g17: "Min ((\<lambda>x. float_abs sample_externals (float_sub sample_externals x 500))
                   ` set (range_data ?rdt)) \<le> 1"
    by (simp_all add: ev)
  note tt = point_measurement_selects_nearest_bin
    [where ext = sample_externals and dscfg = ?cfgt and rd = ?rdt,
     OF h1 h2 h3 h4t sample_target_coordinates g6 g7 g8 g9 g10 g11
        sample_cfg_simps(7) sample_cfg_simps(8) sample_cfg_simps(9) g15 g16 g17]
  have ext: "\<exists>ind_ray ind_r.
      first_argmin [1, 1] ind_ray \<and> first_argmin [0, 1000] ind_r \<and>
      process_point_measurement sample_externals 1 ?cfgt (Some ?rdt) =
        Inr ([], Some \<lparr>value_k = [[0, 1], [10, 11]] ! ind_ray ! ind_r, datatype_k = ''dBZ'',
             time_k = [0, 60] ! ind_ray,
             point_coordinates_WGS84_lon_lat_alt = [1 / 2 ^ 60, 0, 500],
             antenna_coordinates_az_el_r = [1 / 2 ^ 60, 0, 500],
             used_antenna_coordinates_az_el_r =
               [[- 1, 1] ! ind_ray, [0, 0] ! ind_ray, [500, 1500] ! ind_r]\<rparr>)"
    using tt by (simp add: ev bindE_Inr upt_rec)
  have ev2: "process_point_measurement sample_externals 1 ?cfgt (Some ?rdt) =
        Inr ([], Some \<lparr>value_k = 0, datatype_k = ''dBZ'', time_k = 0,
             point_coordinates_WGS84_lon_lat_alt = [1 / 2 ^ 60, 0, 500],
             antenna_coordinates_az_el_r = [1 / 2 ^ 60, 0, 500],
             used_antenna_coordinates_az_el_r = [- 1, 0, 500]\<rparr>)"
    unfolding process_phase_bin_resolution
      [where dscfg = ?cfgt and ext = sample_externals and rd = ?rdt,
       OF h1 h2 h3 h4t sample_target_coordinates]
    by (simp add: resolve_bin_def ev get_float_def bindE_Inr np_add_def getitem_def
        getitem2_def upt_rec)
  have ev3: "process_point_measurement sample_externals 1 ?cfgt (Some ?rds) =
        Inr ([], Some \<lparr>value_k = 0, datatype_k = ''dBZ'', time_k = 0,
             point_coordinates_WGS84_lon_lat_alt = [1 / 2 ^ 60, 0, 500],
             antenna_coordinates_az_el_r = [1 / 2 ^ 60, 0, 500],
             used_antenna_coordinates_az_el_r = [- 1, 0, 500]\<rparr>)"
    unfolding process_phase_bin_resolution
      [where dscfg = ?cfgt and ext = sample_externals and rd = ?rds,
       OF h1 h2 h3 h4s sample_target_coordinates]
    by (simp add: resolve_bin_def ev get_float_def bindE_Inr np_add_def getitem_def
        getitem2_def upt_rec)
  from ex ev1 ext ev2 ev3 show ?thesis by blast
qed

subsection \<open>C2: the three gates\<close>

text \<open>
  Claim C2.  In the PROCESS phase, once the requested \<^verbatim>\<open>(az, el, r)\<close> is known, the
  gates run in the order azimuth, elevation, range.  If the minimum over the rays of
  \<open>\<bar>azimuth\<^sub>i - az\<bar>\<close> (as the code computes it in floats) exceeds \<^verbatim>\<open>AziTol\<close>, the
  routine returns \<^verbatim>\<open>None\<close> with one diagnostic, whose text is spelled out below: it
  holds \<^verbatim>\<open>str(az)\<close>, \<^verbatim>\<open>str(el)\<close>, \<^verbatim>\<open>str(r)\<close>, names the azimuth and holds \<^verbatim>\<open>str\<close> of
  that minimum.  This is so whatever the elevations, the range bins and the other
  two tolerances are (they are not looked at).  If the azimuth gate passes and the
  minimum of \<open>\<bar>elevation\<^sub>i - el\<bar>\<close> exceeds \<^verbatim>\<open>EleTol\<close>, the result is the elevation
  diagnostic, whatever the range bins are; if both pass and the minimum of
  \<open>\<bar>range\<^sub>j - r\<bar>\<close> exceeds \<^verbatim>\<open>RngTol\<close>, it is the range diagnostic.
\<close>

theorem tolerance_gates_in_order:
  assumes "dscfg ''datatype'' = Some (PyStrList (d # ds))"
    and "get_datatype_fields ext d = Inr (datagroup, datatype, dataset, product)"
    and "get_fieldname_pyart ext datatype = Inr field_name"
    and "fields_data rd field_name = Some data"
    and "target_coordinates ext dscfg rd = Inr (lon, lat, alt, r, az, el)"
    and "azimuth_data rd \<noteq> []"
    and "dscfg ''AziTol'' = Some (PyFloat AziTol)"
  shows
    "(Min ((\<lambda>a. float_abs ext (float_sub ext a az)) ` set (azimuth_data rd)) > AziTol \<longrightarrow>
        process_point_measurement ext 1 dscfg (Some rd) =
          Inr (['' No radar bin found for point (az, el, r):('' @ str ext az @ '', ''
                  @ str ext el @ '', '' @ str ext r
                  @ ''). Minimum distance to radar azimuth ''
                  @ str ext (Min ((\<lambda>a. float_abs ext (float_sub ext a az))
                                    ` set (azimuth_data rd)))
                  @ '' larger than tolerance''], None))
     \<and> (Min ((\<lambda>a. float_abs ext (float_sub ext a az)) ` set (azimuth_data rd)) \<le> AziTol
        \<and> elevation_data rd \<noteq> [] \<and> dscfg ''EleTol'' = Some (PyFloat EleTol)
        \<and> Min ((\<lambda>e. float_abs ext (float_sub ext e el)) ` set (elevation_data rd)) > EleTol
        \<longrightarrow>
        process_point_measurement ext 1 dscfg (Some rd) =
          Inr (['' No radar bin found for point (az, el, r):('' @ str ext az @ '', ''
                  @ str ext el @ '', '' @ str ext r
                  @ ''). Minimum distance to radar elevation ''
                  @ str ext (Min ((\<lambda>e. float_abs ext (float_sub ext e el))
                                    ` set (elevation_data rd)))
                  @ '' larger than tolerance''], None))
     \<and> (Min ((\<lambda>a. float_abs ext (float_sub ext a az)) ` set (azimuth_data rd)) \<le> AziTol
        \<and> elevation_data rd \<noteq> [] \<and> dscfg ''EleTol'' = Some (PyFloat EleTol)
        \<and> Min ((\<lambda>e. float_abs ext (float_sub ext e el)) ` set (elevation_data rd)) \<le> EleTol
        \<and> range_data rd \<noteq> [] \<and> dscfg ''RngTol'' = Some (PyFloat RngTol)
        \<and> Min ((\<lambda>x. float_abs ext (float_sub ext x r)) ` set (range_data rd)) > RngTol
        \<longrightarrow>
        process_point_measurement ext 1 dscfg (Some rd) =
          Inr (['' No radar bin found for point (az, el, r):('' @ str ext az @ '', ''
                  @ str ext el @ '', '' @ str ext r
                  @ ''). Minimum distance to radar range bin ''
                  @ str ext (Min ((\<lambda>x. float_abs ext (float_sub ext x r))
                                    ` set (range_data rd)))
                  @ '' larger than tolerance''], None))"
proof -
  note run = process_phase_bin_resolution
    [where dscfg = dscfg and ext = ext and rd = rd, OF assms(1-5)]
  note az_min = np_min_map [OF assms(6), of "\<lambda>a. float_abs ext (float_sub ext a az)"]
  have msg: "no_bin_message ext az el r what v =
      '' No radar bin found for point (az, el, r):('' @ str ext az @ '', ''
        @ str ext el @ '', '' @ str ext r @ ''). Minimum distance to radar '' @ what @ '' ''
        @ str ext v @ '' larger than tolerance''" for what v
    by (simp only: no_bin_message_def)
  show ?thesis
  proof (intro conjI impI)
    assume "Min ((\<lambda>a. float_abs ext (float_sub ext a az)) ` set (azimuth_data rd)) > AziTol"
    then have "process_point_measurement ext 1 dscfg (Some rd) =
          Inr ([no_bin_message ext az el r ''azimuth''
                  (Min ((\<lambda>a. float_abs ext (float_sub ext a az)) ` set (azimuth_data rd)))],
               None)"
      unfolding run using az_min assms(7) by (rule resolve_bin_azimuth_gate [rotated 2])
    then show "process_point_measurement ext 1 dscfg (Some rd) =
          Inr (['' No radar bin found for point (az, el, r):('' @ str ext az @ '', ''
                  @ str ext el @ '', '' @ str ext r
                  @ ''). Minimum distance to radar azimuth ''
                  @ str ext (Min ((\<lambda>a. float_abs ext (float_sub ext a az))
                                    ` set (azimuth_data rd)))
                  @ '' larger than tolerance''], None)"
      by (simp add: msg)
  next
    assume h: "Min ((\<lambda>a. float_abs ext (float_sub ext a az)) ` set (azimuth_data rd)) \<le> AziTol
        \<and> elevation_data rd \<noteq> [] \<and> dscfg ''EleTol'' = Some (PyFloat EleTol)
        \<and> Min ((\<lambda>e. float_abs ext (float_sub ext e el)) ` set (elevation_data rd)) > EleTol"
    then have ene: "elevation_data rd \<noteq> []" by simp
    have "process_point_measurement ext 1 dscfg (Some rd) =
          Inr ([no_bin_message ext az el r ''elevation''
                  (Min ((\<lambda>e. float_abs ext (float_sub ext e el)) ` set (elevation_data rd)))],
               None)"
      unfolding run
      using az_min assms(7) h
        np_min_map [OF ene, of "\<lambda>e. float_abs ext (float_sub ext e el)"]
      by (intro resolve_bin_elevation_gate [where dscfg = dscfg]) blast+
    then show "process_point_measurement ext 1 dscfg (Some rd) =
          Inr (['' No radar bin found for point (az, el, r):('' @ str ext az @ '', ''
                  @ str ext el @ '', '' @ str ext r
                  @ ''). Minimum distance to radar elevation ''
                  @ str ext (Min ((\<lambda>e. float_abs ext (float_sub ext e el))
                                    ` set (elevation_data rd)))
                  @ '' larger than tolerance''], None)"
      by (simp add: msg)
  next
    assume h: "Min ((\<lambda>a. float_abs ext (float_sub ext a az)) ` set (azimuth_data rd)) \<le> AziTol
        \<and> elevation_data rd \<noteq> [] \<and> dscfg ''EleTol'' = Some (PyFloat EleTol)
        \<and> Min ((\<lambda>e. float_abs ext (float_sub ext e el)) ` set (elevation_data rd)) \<le> EleTol
        \<and> range_data rd \<noteq> [] \<and> dscfg ''RngTol'' = Some (PyFloat RngTol)
        \<and> Min ((\<lambda>x. float_abs ext (float_sub ext x r)) ` set (range_data rd)) > RngTol"
    then have ene: "elevation_data rd \<noteq> []" and rne: "range_data rd \<noteq> []" by simp_all
    have "process_point_measurement ext 1 dscfg (Some rd) =
          Inr ([no_bin_message ext az el r ''range bin''
                  (Min ((\<lambda>x. float_abs ext (float_sub ext x r)) ` set (range_data rd)))],
               None)"
      unfolding run
      using az_min assms(7) h
        np_min_map [OF ene, of "\<lambda>e. float_abs ext (float_sub ext e el)"]
        np_min_map [OF rne, of "\<lambda>x. float_abs ext (float_sub ext x r)"]
      by (intro resolve_bin_range_gate [where dscfg = dscfg]) blast+
    then show "process_point_measurement ext 1 dscfg (Some rd) =
          Inr (['' No radar bin found for point (az, el, r):('' @ str ext az @ '', ''
                  @ str ext el @ '', '' @ str ext r
                  @ ''). Minimum distance to radar range bin ''
                  @ str ext (Min ((\<lambda>x. float_abs ext (float_sub ext x r))
                                    ` set (range_data rd)))
                  @ '' larger than tolerance''], None)"
      by (simp add: msg)
  qed
qed

text \<open>
  C2 at the example of the specification: ray azimuths 10, 20, 30 and the requested
  azimuth 25.  With \<^verbatim>\<open>AziTol = 3\<close> the azimuth gate fails and the diagnostic shows the
  request \<^verbatim>\<open>(25.0, 1.0, 500.0)\<close> and the minimum distance \<^verbatim>\<open>5.0\<close>, also on a volume
  whose elevation and range arrays are empty (\<^verbatim>\<open>np.min\<close> would raise on them, were
  they looked at).  With \<^verbatim>\<open>AziTol = 6\<close> the routine goes on to the elevation gate
  (which fails for the requested elevation 9 against rays at elevation 1) and, for
  the requested elevation 1, to the range gate (which fails for the requested range
  800 against the bins 500 and 1500).
\<close>

theorem tolerance_gates_in_order_witness:
  "process_point_measurement sample_externals 1 (geographic_cfg 25 1 500 3 1 100)
     (Some (sample_radar [(10, 1), (20, 1), (30, 1)] [500, 1500]))
     = Inr (['' No radar bin found for point (az, el, r):(25.0, 1.0, 500.0). ''
              @ ''Minimum distance to radar azimuth 5.0 larger than tolerance''], None)
   \<and> process_point_measurement sample_externals 1 (geographic_cfg 25 1 500 3 1 100)
     (Some ((sample_radar [(10, 1), (20, 1), (30, 1)] [500, 1500])
              \<lparr>elevation_data := [], range_data := []\<rparr>))
     = Inr (['' No radar bin found for point (az, el, r):(25.0, 1.0, 500.0). ''
              @ ''Minimum distance to radar azimuth 5.0 larger than tolerance''], None)
   \<and> process_point_measurement sample_externals 1 (geographic_cfg 25 9 500 6 1 100)
     (Some (sample_radar [(10, 1), (20, 1), (30, 1)] [500, 1500]))
     = Inr (['' No radar bin found for point (az, el, r):(25.0, 9.0, 500.0). ''
              @ ''Minimum distance to radar elevation 8.0 larger than tolerance''], None)
   \<and> process_point_measurement sample_externals 1 (geographic_cfg 25 1 800 6 1 100)
     (Some (sample_radar [(10, 1), (20, 1), (30, 1)] [500, 1500]))
     = Inr (['' No radar bin found for point (az, el, r):(25.0, 1.0, 800.0). ''
              @ ''Minimum distance to radar range bin 300.0 larger than tolerance''], None)"
proof -
  let ?rd = "sample_radar [(10, 1), (20, 1), (30, 1)] [500, 1500]"
  let ?rde = "?rd\<lparr>elevation_data := [], range_data := []\<rparr>"
  let ?data = "map (\<lambda>i. map (\<lambda>j. 10 * real i + real j) [0 ..< length [500, 1500 :: real]])
              [0 ..< length [(10, 1), (20, 1), (30 :: real, 1 :: real)]]"
  have h2: "get_datatype_fields sample_externals ''dBZ'' = Inr (''RADAR'', ''dBZ'', ''D'', ''P'')"
    and h3: "get_fieldname_pyart sample_externals ''dBZ'' = Inr ''reflectivity''"
    by (simp_all add: sample_externals_simps)
  have h4: "fields_data ?rd ''reflectivity'' = Some ?data"
    by (rule sample_radar_simps)
  have h4': "fields_data ?rde ''reflectivity'' = Some ?data"
    by (simp add: sample_radar_simps)
  have h5': "target_coordinates sample_externals (geographic_cfg 25 1 500 3 1 100) ?rde
      = Inr (25, 1, 500, 500, 25, 1)"
    by (rule target_coordinates_truealt [where x = 25 and y = 1])
       (simp_all add: sample_cfg_simps sample_externals_simps sample_radar_def)
  have h6: "azimuth_data ?rd \<noteq> []" by (simp add: sample_radar_simps)
  have h6': "azimuth_data ?rde \<noteq> []" by (simp add: sample_radar_simps)
  have h1: "geographic_cfg lon lat alt ta te tr ''datatype'' = Some (PyStrList (''dBZ'' # []))"
    for lon lat alt ta te tr by (simp add: sample_cfg_simps)
  note a = tolerance_gates_in_order
    [where ext = sample_externals and dscfg = "geographic_cfg 25 1 500 3 1 100" and rd = ?rd
       and EleTol = 1 and RngTol = 100,
     OF h1 h2 h3 h4 sample_target_coordinates h6 sample_cfg_simps(7)]
  note a' = tolerance_gates_in_order
    [where ext = sample_externals and dscfg = "geographic_cfg 25 1 500 3 1 100" and rd = ?rde
       and EleTol = 1 and RngTol = 100,
     OF h1 h2 h3 h4' h5' h6' sample_cfg_simps(7)]
  note b = tolerance_gates_in_order
    [where ext = sample_externals and dscfg = "geographic_cfg 25 9 500 6 1 100" and rd = ?rd
       and EleTol = 1 and RngTol = 100,
     OF h1 h2 h3 h4 sample_target_coordinates h6 sample_cfg_simps(7)]
  note c = tolerance_gates_in_order
    [where ext = sample_externals and dscfg = "geographic_cfg 25 1 800 6 1 100" and rd = ?rd
       and EleTol = 1 and RngTol = 100,
     OF h1 h2 h3 h4 sample_target_coordinates h6 sample_cfg_simps(7)]
  note ev = sample_radar_simps sample_cfg_simps sample_externals_simps sample_round_whole
    sample_str_values
  have "process_point_measurement sample_externals 1 (geographic_cfg 25 1 500 3 1 100) (Some ?rd)
     = Inr (['' No radar bin found for point (az, el, r):(25.0, 1.0, 500.0). ''
              @ ''Minimum distance to radar azimuth 5.0 larger than tolerance''], None)"
    using a by (simp add: ev)
  moreover have "process_point_measurement sample_externals 1 (geographic_cfg 25 1 500 3 1 100)
     (Some ?rde)
     = Inr (['' No radar bin found for point (az, el, r):(25.0, 1.0, 500.0). ''
              @ ''Minimum distance to radar azimuth 5.0 larger than tolerance''], None)"
    using a' by (simp add: ev)
  moreover have "process_point_measurement sample_externals 1 (geographic_cfg 25 9 500 6 1 100)
     (Some ?rd)
     = Inr (['' No radar bin found for point (az, el, r):(25.0, 9.0, 500.0). ''
              @ ''Minimum distance to radar elevation 8.0 larger than tolerance''], None)"
    using b by (simp add: ev)
  moreover have "process_point_measurement sample_externals 1 (geographic_cfg 25 1 800 6 1 100)
     (Some ?rd)
     = Inr (['' No radar bin found for point (az, el, r):(25.0, 1.0, 800.0). ''
              @ ''Minimum distance to radar range bin 300.0 larger than tolerance''], None)"
    using c by (simp add: ev)
  ultimately show ?thesis by blast
qed

subsection \<open>C3: the registry on the recognized names\<close>

text \<open>
  Claim C3.  \<^verbatim>\<open>get_process_type\<close> returns for every recognized dataset type: the name
  maps to exactly one handler identifier, and the format returned with it is
  \<^verbatim>\<open>'SUN_HITS'\<close> for \<^verbatim>\<open>'SUN_HITS'\<close>, the time-series format \<^verbatim>\<open>'TIMESERIES'\<close> for
  \<^verbatim>\<open>'POINT_MEASUREMENT'\<close> and \<^verbatim>\<open>'VOL'\<close> for every other recognized name; \<^verbatim>\<open>'RAW'\<close> maps to
  \<^verbatim>\<open>('process_raw', 'VOL')\<close>.
\<close>

theorem get_process_type_recognized:
  assumes "n \<in> set recognized_dataset_types"
  shows "(\<exists>!f. get_process_type n =
            Inr (f, if n = ''SUN_HITS'' then ''SUN_HITS''
                    else if n = ''POINT_MEASUREMENT'' then ''TIMESERIES'' else ''VOL''))
         \<and> get_process_type ''RAW'' = Inr (''process_raw'', ''VOL'')"
proof -
  have "\<exists>f. get_process_type n =
            Inr (f, if n = ''SUN_HITS'' then ''SUN_HITS''
                    else if n = ''POINT_MEASUREMENT'' then ''TIMESERIES'' else ''VOL'')"
    using assms unfolding recognized_dataset_types_def get_process_type_def Let_def
    by (elim set_ConsD[elim_format] disjE; simp)
  then have "\<exists>!f. get_process_type n =
            Inr (f, if n = ''SUN_HITS'' then ''SUN_HITS''
                    else if n = ''POINT_MEASUREMENT'' then ''TIMESERIES'' else ''VOL'')"
    by auto
  moreover have "get_process_type ''RAW'' = Inr (''process_raw'', ''VOL'')"
    by (simp add: get_process_type_def)
  ultimately show ?thesis by blast
qed

text \<open>The hypothesis and the conclusion of C3 at \<^verbatim>\<open>'SUN_HITS'\<close>.\<close>

theorem get_process_type_recognized_witness:
  "''SUN_HITS'' \<in> set recognized_dataset_types
   \<and> (\<exists>!f. get_process_type ''SUN_HITS'' = Inr (f, ''SUN_HITS''))
   \<and> get_process_type ''RAW'' = Inr (''process_raw'', ''VOL'')"
proof -
  have h: "''SUN_HITS'' \<in> set recognized_dataset_types"
    by (simp add: recognized_dataset_types_def)
  show ?thesis using h get_process_type_recognized [OF h] by simp
qed

subsection \<open>C4: the registry outside the recognized names\<close>

text \<open>
  Claim C4.  For every dataset type outside the recognized set \<^verbatim>\<open>get_process_type\<close>
  raises: the result is no pair but the \<^verbatim>\<open>ValueError\<close> whose message ends with the
  offending name.
\<close>

theorem get_process_type_unrecognized:
  assumes "n \<notin> set recognized_dataset_types"
  shows "get_process_type n = Inl (ValueError (''ERROR: Unknown dataset type '' @ n))"
  using assms unfolding recognized_dataset_types_def get_process_type_def Let_def
  by simp

text \<open>The hypothesis and the conclusion of C4 at \<^verbatim>\<open>'NOT_A_REAL_OP'\<close>.\<close>

theorem get_process_type_unrecognized_witness:
  "''NOT_A_REAL_OP'' \<notin> set recognized_dataset_types
   \<and> get_process_type ''NOT_A_REAL_OP'' =
       Inl (ValueError ''ERROR: Unknown dataset type NOT_A_REAL_OP'')"
proof -
  have h: "''NOT_A_REAL_OP'' \<notin> set recognized_dataset_types"
    by (simp add: recognized_dataset_types_def)
  show ?thesis using h get_process_type_unrecognized [OF h] by simp
qed

subsection \<open>C5: antenna mode\<close>

text \<open>
  Claim C5 says that in antenna mode the routine completes without raising and
  returns a record.  The code does not: with \<^verbatim>\<open>latlon\<close> false, the field present and
  \<^verbatim>\<open>rng\<close>, \<^verbatim>\<open>azi\<close>, \<^verbatim>\<open>ele\<close> configured, line 281 raises \<^verbatim>\<open>NameError\<close>, whatever the
  geometry functions, \<^verbatim>\<open>num2date\<close> and \<^verbatim>\<open>str\<close> are.
\<close>

theorem antenna_mode_raises_NameError:
  "process_point_measurement
     (ext\<lparr>get_datatype_fields := (\<lambda>s. Inr (''RADAR'', s, ''D'', ''P'')),
          get_fieldname_pyart := (\<lambda>dt. Inr ''reflectivity'')\<rparr>)
     1 (antenna_cfg 10 5 1500 1 1 100)
     (Some (sample_radar [(10, 1), (10, 5)] [500, 1500]))
   = Inl (NameError ''antenna_to_cartesian'')"
proof -
  let ?ext = "ext\<lparr>get_datatype_fields := (\<lambda>s. Inr (''RADAR'', s, ''D'', ''P'')),
          get_fieldname_pyart := (\<lambda>dt. Inr ''reflectivity'')\<rparr>"
  have "target_coordinates ?ext (antenna_cfg 10 5 1500 1 1 100)
          (sample_radar [(10, 1), (10, 5)] [500, 1500]) = Inl (NameError ''antenna_to_cartesian'')"
    by (rule target_coordinates_antenna) (simp_all add: antenna_cfg_def)
  moreover have "process_point_measurement ?ext 1 (antenna_cfg 10 5 1500 1 1 100)
     (Some (sample_radar [(10, 1), (10, 5)] [500, 1500])) =
     (case fields_data (sample_radar [(10, 1), (10, 5)] [500, 1500]) ''reflectivity'' of
        None \<Rightarrow> Inr ([''Unable to extract point measurement information. ''
                       @ ''Field not available''], None)
      | Some data \<Rightarrow> bindE (target_coordinates ?ext (antenna_cfg 10 5 1500 1 1 100)
                              (sample_radar [(10, 1), (10, 5)] [500, 1500]))
                       (resolve_bin ?ext (antenna_cfg 10 5 1500 1 1 100)
                          (sample_radar [(10, 1), (10, 5)] [500, 1500]) ''dBZ'' data))"
    by (rule process_phase_unfold [where d = "''dBZ''" and ds = "[]"])
       (simp_all add: antenna_cfg_def)
  ultimately show ?thesis by (simp add: sample_radar_def bindE_Inl)
qed

subsection \<open>C6: the target altitude in geographic mode\<close>

text \<open>
  Claim C6.  In geographic mode, with \<^verbatim>\<open>(x, y)\<close> the projection of the configured
  \<^verbatim>\<open>(lon, lat)\<close>: when \<^verbatim>\<open>truealt\<close> is false, the target altitude is the altitude of the
  radar plus the beam height of the specification at the ground range
  \<open>sqrt (x\<^sup>2 + y\<^sup>2)\<close> and the configured elevation, and the height handed to
  \<^verbatim>\<open>cartesian_to_antenna\<close> is that altitude minus the altitude of the radar; when
  \<^verbatim>\<open>truealt\<close> is true, the configured altitude takes the place of the target altitude
  (the altitude of the radar is subtracted from it as well).  The routine then
  continues with the gates on the antenna coordinates so obtained.  The model is over
  the reals; the first part assumes \<open>cos el \<noteq> 0\<close>.
\<close>

theorem geographic_mode_target_altitude:
  assumes "dscfg ''datatype'' = Some (PyStrList (d # ds))"
    and "get_datatype_fields ext d = Inr (datagroup, datatype, dataset, product)"
    and "get_fieldname_pyart ext datatype = Inr field_name"
    and "fields_data rd field_name = Some data"
    and "dscfg ''latlon'' = Some (PyBool True)"
    and "dscfg ''lon'' = Some (PyFloat lon)" and "dscfg ''lat'' = Some (PyFloat lat)"
    and "dscfg ''alt'' = Some (PyFloat alt)"
    and "geographic_to_cartesian ext lon lat
          \<lparr>proj = ''pyart_aeqd'', lon_0 = longitude_data rd, lat_0 = latitude_data rd\<rparr> = (x, y)"
  shows
    "(dscfg ''truealt'' = Some (PyBool False) \<and> dscfg ''ele'' = Some (PyFloat ele)
        \<and> cos (ele * pi / 180) \<noteq> 0
        \<and> cartesian_to_antenna ext x y
            ((altitude_data rd + beam_height_above_radar (sqrt (x ^ 2 + y ^ 2)) ele)
               - altitude_data rd) = (r, az, el) \<longrightarrow>
      process_point_measurement ext 1 dscfg (Some rd) =
        resolve_bin ext dscfg rd datatype data (lon, lat, alt, r, az, el))
     \<and> (dscfg ''truealt'' = Some (PyBool True)
        \<and> cartesian_to_antenna ext x y (alt - altitude_data rd) = (r', az', el') \<longrightarrow>
      process_point_measurement ext 1 dscfg (Some rd) =
        resolve_bin ext dscfg rd datatype data (lon, lat, alt, r', az', el'))"
proof (intro conjI impI)
  assume h: "dscfg ''truealt'' = Some (PyBool False) \<and> dscfg ''ele'' = Some (PyFloat ele)
        \<and> cos (ele * pi / 180) \<noteq> 0
        \<and> cartesian_to_antenna ext x y
            ((altitude_data rd + beam_height_above_radar (sqrt (x ^ 2 + y ^ 2)) ele)
               - altitude_data rd) = (r, az, el)"
  have "target_coordinates ext dscfg rd = Inr (lon, lat, alt, r, az, el)"
    using assms(5-9) h by (intro target_coordinates_elevation [where ele = ele]) blast+
  then show "process_point_measurement ext 1 dscfg (Some rd) =
        resolve_bin ext dscfg rd datatype data (lon, lat, alt, r, az, el)"
    by (rule process_phase_bin_resolution
          [where dscfg = dscfg and ext = ext and rd = rd, OF assms(1-4)])
next
  assume h: "dscfg ''truealt'' = Some (PyBool True)
        \<and> cartesian_to_antenna ext x y (alt - altitude_data rd) = (r', az', el')"
  have "target_coordinates ext dscfg rd = Inr (lon, lat, alt, r', az', el')"
    using assms(5-9) h by (intro target_coordinates_truealt) blast+
  then show "process_point_measurement ext 1 dscfg (Some rd) =
        resolve_bin ext dscfg rd datatype data (lon, lat, alt, r', az', el')"
    by (rule process_phase_bin_resolution
          [where dscfg = dscfg and ext = ext and rd = rd, OF assms(1-4)])
qed

text \<open>
  C6 at the point projected to \<^verbatim>\<open>(x, y) = (3000, 4000)\<close>, at elevation 2 degrees, and
  with the true altitude 700.
\<close>

theorem geographic_mode_target_altitude_witness:
  "cos (2 * pi / 180) \<noteq> 0
   \<and> process_point_measurement sample_externals 1
       ((geographic_cfg 3000 4000 0 1 1 100)(''truealt'' \<mapsto> PyBool False, ''ele'' \<mapsto> PyFloat 2))
       (Some (sample_radar [(10, 1), (10, 5)] [500, 1500])) =
     resolve_bin sample_externals
       ((geographic_cfg 3000 4000 0 1 1 100)(''truealt'' \<mapsto> PyBool False, ''ele'' \<mapsto> PyFloat 2))
       (sample_radar [(10, 1), (10, 5)] [500, 1500]) ''dBZ'' [[0, 1], [10, 11]]
       (3000, 4000, 0,
        (0 + beam_height_above_radar (sqrt (3000 ^ 2 + 4000 ^ 2)) 2) - 0, 3000, 4000)
   \<and> process_point_measurement sample_externals 1 (geographic_cfg 3000 4000 700 1 1 100)
       (Some (sample_radar [(10, 1), (10, 5)] [500, 1500])) =
     resolve_bin sample_externals (geographic_cfg 3000 4000 700 1 1 100)
       (sample_radar [(10, 1), (10, 5)] [500, 1500]) ''dBZ'' [[0, 1], [10, 11]]
       (3000, 4000, 700, 700, 3000, 4000)"
proof -
  let ?rd = "sample_radar [(10, 1), (10, 5)] [500, 1500]"
  let ?cfga = "(geographic_cfg 3000 4000 0 1 1 100)
                 (''truealt'' \<mapsto> PyBool False, ''ele'' \<mapsto> PyFloat 2)"
  let ?cfgb = "geographic_cfg 3000 4000 700 1 1 100"
  have c: "cos (2 * pi / 180) \<noteq> 0"
  proof -
    have "0 < cos (2 * pi / 180)" by (rule cos_gt_zero_pi) (simp_all add: pi_gt_zero)
    then show ?thesis by linarith
  qed
  have h2: "get_datatype_fields sample_externals ''dBZ'' = Inr (''RADAR'', ''dBZ'', ''D'', ''P'')"
    and h3: "get_fieldname_pyart sample_externals ''dBZ'' = Inr ''reflectivity''"
    by (simp_all add: sample_externals_simps)
  have h4: "fields_data ?rd ''reflectivity'' = Some [[0, 1], [10, 11]]"
    by (simp add: sample_radar_simps upt_rec)
  have g: "geographic_to_cartesian sample_externals 3000 4000
          \<lparr>proj = ''pyart_aeqd'', lon_0 = longitude_data ?rd, lat_0 = latitude_data ?rd\<rparr>
          = (3000, 4000)"
    by (simp add: sample_externals_simps sample_radar_simps)
  have k1: "?cfga ''datatype'' = Some (PyStrList (''dBZ'' # []))"
    "?cfga ''latlon'' = Some (PyBool True)" "?cfga ''lon'' = Some (PyFloat 3000)"
    "?cfga ''lat'' = Some (PyFloat 4000)" "?cfga ''alt'' = Some (PyFloat 0)"
    by (simp_all add: geographic_cfg_def)
  have k2: "?cfgb ''datatype'' = Some (PyStrList (''dBZ'' # []))"
    "?cfgb ''latlon'' = Some (PyBool True)" "?cfgb ''lon'' = Some (PyFloat 3000)"
    "?cfgb ''lat'' = Some (PyFloat 4000)" "?cfgb ''alt'' = Some (PyFloat 700)"
    by (simp_all add: geographic_cfg_def)
  note t1 = geographic_mode_target_altitude
    [where ext = sample_externals and dscfg = ?cfga and rd = ?rd and ele = 2
       and r = "(0 + beam_height_above_radar (sqrt (3000 ^ 2 + 4000 ^ 2)) 2) - 0"
       and az = 3000 and el = 4000,
     OF k1(1) h2 h3 h4 k1(2) k1(3) k1(4) k1(5) g, THEN conjunct1]
  note t2 = geographic_mode_target_altitude
    [where ext = sample_externals and dscfg = ?cfgb and rd = ?rd
       and r' = 700 and az' = 3000 and el' = 4000,
     OF k2(1) h2 h3 h4 k2(2) k2(3) k2(4) k2(5) g, THEN conjunct2]
  have a: "process_point_measurement sample_externals 1 ?cfga (Some ?rd) =
     resolve_bin sample_externals ?cfga ?rd ''dBZ'' [[0, 1], [10, 11]]
       (3000, 4000, 0,
        (0 + beam_height_above_radar (sqrt (3000 ^ 2 + 4000 ^ 2)) 2) - 0, 3000, 4000)"
    by (rule t1 [rule_format])
       (use c in \<open>simp add: geographic_cfg_def sample_externals_simps sample_radar_simps\<close>)
  have b: "process_point_measurement sample_externals 1 ?cfgb (Some ?rd) =
     resolve_bin sample_externals ?cfgb ?rd ''dBZ'' [[0, 1], [10, 11]]
       (3000, 4000, 700, 700, 3000, 4000)"
    by (rule t2 [rule_format])
       (simp add: geographic_cfg_def sample_externals_simps sample_radar_simps)
  from c a b show ?thesis by blast
qed

subsection \<open>C7: the field is not in the volume\<close>

text \<open>
  Claim C7.  In the PROCESS phase, when the field name that the \<^verbatim>\<open>datatype\<close> entry of
  the configuration resolves to is not a key of \<^verbatim>\<open>radar.fields\<close>,
  \<^verbatim>\<open>process_point_measurement\<close> returns \<^verbatim>\<open>None\<close> with one warning and does not raise.
  Nothing is assumed of the geometry functions, of the other entries of the
  configuration or of the arrays of the volume: the return comes before any of them
  is used.
\<close>

theorem missing_field_returns_no_result:
  assumes "dscfg ''datatype'' = Some (PyStrList (d # ds))"
    and "get_datatype_fields ext d = Inr (datagroup, datatype, dataset, product)"
    and "get_fieldname_pyart ext datatype = Inr field_name"
    and "fields_data rd field_name = None"
  shows "process_point_measurement ext 1 dscfg (Some rd) =
     Inr ([''Unable to extract point measurement information. Field not available''], None)"
  using process_phase_unfold [where dscfg = dscfg and ext = ext and rd = rd, OF assms(1-3)]
    assms(4)
  by simp

text \<open>
  C7 at a volume without fields and a configuration that holds \<^verbatim>\<open>datatype\<close> only: the
  computation of the coordinates would raise \<^verbatim>\<open>KeyError\<close> on it.
\<close>

theorem missing_field_returns_no_result_witness:
  "process_point_measurement sample_externals 1 [''datatype'' \<mapsto> PyStrList [''dBZ'']]
     (Some ((sample_radar [(10, 1), (10, 5)] [500, 1500])\<lparr>fields_data := Map.empty\<rparr>)) =
     Inr ([''Unable to extract point measurement information. Field not available''], None)
   \<and> target_coordinates sample_externals [''datatype'' \<mapsto> PyStrList [''dBZ'']]
       ((sample_radar [(10, 1), (10, 5)] [500, 1500])\<lparr>fields_data := Map.empty\<rparr>)
       = Inl (KeyError ''latlon'')"
proof -
  have h1: "[''datatype'' \<mapsto> PyStrList [''dBZ'']] ''datatype'' = Some (PyStrList (''dBZ'' # []))"
    by simp
  have h2: "get_datatype_fields sample_externals ''dBZ'' = Inr (''RADAR'', ''dBZ'', ''D'', ''P'')"
    by (simp add: sample_externals_simps)
  have h3: "get_fieldname_pyart sample_externals ''dBZ'' = Inr ''reflectivity''"
    by (simp add: sample_externals_simps)
  have h4: "fields_data ((sample_radar [(10, 1), (10, 5)] [500, 1500])\<lparr>fields_data := Map.empty\<rparr>)
              ''reflectivity'' = None"
    by simp
  have k: "target_coordinates sample_externals [''datatype'' \<mapsto> PyStrList [''dBZ'']]
       ((sample_radar [(10, 1), (10, 5)] [500, 1500])\<lparr>fields_data := Map.empty\<rparr>)
       = Inl (KeyError ''latlon'')"
    by (simp add: target_coordinates_def get_bool_def bindE_Inl)
  show ?thesis
    using missing_field_returns_no_result
      [where dscfg = "[''datatype'' \<mapsto> PyStrList [''dBZ'']]" and ext = sample_externals,
        OF h1 h2 h3 h4] k
    by simp
qed

subsection \<open>C8: the phases other than PROCESS\<close>

text \<open>
  Claim C8.  Whatever the configuration and the volume, each of \<^verbatim>\<open>process_raw\<close>,
  \<^verbatim>\<open>process_save_radar\<close> and \<^verbatim>\<open>process_point_measurement\<close> called with a
  \<^verbatim>\<open>procstatus\<close> other than 1 returns \<^verbatim>\<open>None\<close>; the first two leave the store as it
  was and the third emits no warning.
\<close>

theorem other_phases_return_no_result:
  assumes "procstatus \<noteq> 1"
  shows "process_raw procstatus dscfg radar_obj h = (None, h)
    \<and> process_save_radar procstatus dscfg radar_obj h = (None, h)
    \<and> process_point_measurement ext procstatus dscfg radar = Inr ([], None)"
  using assms
  by (simp add: process_raw_def process_save_radar_def process_point_measurement_def)

text \<open>C8 at \<^verbatim>\<open>procstatus\<close> 0 (INIT) and 2 (POST).\<close>

theorem other_phases_return_no_result_witness:
  "(0::int) \<noteq> 1 \<and> (2::int) \<noteq> 1
   \<and> process_raw 0 (geographic_cfg 10 4 1600 10 10 200) (Some [(''azimuth'', 0)])
        \<lparr>mem = (\<lambda>a. [[10, 10]]), next_addr = 1\<rparr>
       = (None, \<lparr>mem = (\<lambda>a. [[10, 10]]), next_addr = 1\<rparr>)
   \<and> process_save_radar 2 (geographic_cfg 10 4 1600 10 10 200) (Some [(''azimuth'', 0)])
        \<lparr>mem = (\<lambda>a. [[10, 10]]), next_addr = 1\<rparr>
       = (None, \<lparr>mem = (\<lambda>a. [[10, 10]]), next_addr = 1\<rparr>)
   \<and> process_point_measurement sample_externals 0 (geographic_cfg 10 4 1600 10 10 200)
        (Some (sample_radar [(10, 1), (10, 5)] [500, 1500])) = Inr ([], None)
   \<and> process_point_measurement sample_externals 2 (geographic_cfg 10 4 1600 10 10 200)
        (Some (sample_radar [(10, 1), (10, 5)] [500, 1500])) = Inr ([], None)"
proof -
  have h0: "(0::int) \<noteq> 1" and h2: "(2::int) \<noteq> 1" by simp_all
  show ?thesis
    using h0 h2
      other_phases_return_no_result [OF h0, of "geographic_cfg 10 4 1600 10 10 200"
        "Some [(''azimuth'', 0)]" "\<lparr>mem = (\<lambda>a. [[10, 10]]), next_addr = 1\<rparr>" sample_externals
        "Some (sample_radar [(10, 1), (10, 5)] [500, 1500])"]
      other_phases_return_no_result [OF h2, of "geographic_cfg 10 4 1600 10 10 200"
        "Some [(''azimuth'', 0)]" "\<lparr>mem = (\<lambda>a. [[10, 10]]), next_addr = 1\<rparr>" sample_externals
        "Some (sample_radar [(10, 1), (10, 5)] [500, 1500])"]
    by simp
qed

subsection \<open>C9: \<^verbatim>\<open>process_raw\<close> copies\<close>

text \<open>
  Claim C9.  After \<^verbatim>\<open>process_raw\<close> in the PROCESS phase on a volume whose arrays are
  allocated, every cell allocated before the call holds what it held (the arrays of
  the input are unchanged); the value returned is a volume with the same attributes,
  each array of which has the contents of the corresponding array of the input; and
  no array of the returned volume is an array of the input, so that a write to any
  array of the copy leaves every array of the input as it was.
\<close>

theorem process_raw_returns_independent_copy:
  assumes "\<forall>(k, a) \<in> set obj. a < next_addr h"
  shows "case process_raw 1 dscfg (Some obj) h of
      (res, h') \<Rightarrow>
        \<exists>new. res = Some new
          \<and> (\<forall>a < next_addr h. mem h' a = mem h a)
          \<and> map fst new = map fst obj
          \<and> (\<forall>i < length obj. mem h' (snd (new ! i)) = mem h (snd (obj ! i)))
          \<and> snd ` set new \<inter> snd ` set obj = {}
          \<and> (\<forall>a' \<in> snd ` set new. \<forall>a \<in> snd ` set obj. \<forall>v.
                ((mem h')(a' := v)) a = mem h a)"
proof -
  obtain new h' where dc: "deepcopy h obj = (new, h')" by (cases "deepcopy h obj")
  note frame = deepcopy_props(1) [OF dc assms]
  note copy = deepcopy_props(2) [OF dc assms]
  have len: "length new = length obj" using copy by (simp add: list_all2_lengthD)
  have nth: "fst (new ! i) = fst (obj ! i) \<and> next_addr h \<le> snd (new ! i)
      \<and> mem h' (snd (new ! i)) = mem h (snd (obj ! i))" if "i < length obj" for i
    using list_all2_nthD [OF copy that] by (simp add: split_def)
  have keys: "map fst new = map fst obj"
    using len nth by (intro nth_equalityI) simp_all
  have fresh: "next_addr h \<le> a'" if "a' \<in> snd ` set new" for a'
  proof -
    from that obtain i where "i < length new" "a' = snd (new ! i)"
      by (auto simp: in_set_conv_nth)
    with nth len show ?thesis by simp
  qed
  have old: "a < next_addr h" if "a \<in> snd ` set obj" for a
    using assms that by auto
  have disj: "snd ` set new \<inter> snd ` set obj = {}"
  proof (rule ccontr)
    assume "snd ` set new \<inter> snd ` set obj \<noteq> {}"
    then obtain a where "a \<in> snd ` set new" "a \<in> snd ` set obj" by blast
    with fresh old show False by fastforce
  qed
  have wr: "\<forall>a' \<in> snd ` set new. \<forall>a \<in> snd ` set obj. \<forall>v. ((mem h')(a' := v)) a = mem h a"
  proof (intro ballI allI)
    fix a' a v assume "a' \<in> snd ` set new" "a \<in> snd ` set obj"
    then have "next_addr h \<le> a'" "a < next_addr h" using fresh old by blast+
    then show "((mem h')(a' := v)) a = mem h a" using frame by simp
  qed
  have "process_raw 1 dscfg (Some obj) h = (Some new, h')"
    by (simp add: process_raw_def dc)
  with frame keys nth disj wr show ?thesis by simp
qed

text \<open>
  C9 at a store of two arrays: the copy lives in the two fresh cells 2 and 3.
\<close>

theorem process_raw_returns_independent_copy_witness:
  "case process_raw 1 Map.empty (Some [(''azimuth'', 0), (''reflectivity'', 1)])
          \<lparr>mem = (\<lambda>a. if a = 0 then [[10, 10]] else [[0, 1], [10, 11]]), next_addr = 2\<rparr> of
      (res, h') \<Rightarrow>
        res = Some [(''azimuth'', 2), (''reflectivity'', 3)]
          \<and> mem h' 0 = [[10, 10]] \<and> mem h' 1 = [[0, 1], [10, 11]]
          \<and> mem h' 2 = [[10, 10]] \<and> mem h' 3 = [[0, 1], [10, 11]]
          \<and> (\<exists>new. res = Some new
          \<and> (\<forall>a < 2. mem h' a = (if a = 0 then [[10, 10]] else [[0, 1], [10, 11]]))
          \<and> map fst new = [''azimuth'', ''reflectivity'']
          \<and> snd ` set new \<inter> {0, 1} = {})"
proof -
  let ?obj = "[(''azimuth'', 0 :: nat), (''reflectivity'', 1)]"
  let ?h = "\<lparr>mem = (\<lambda>a :: nat. if a = 0 then [[10, 10 :: real]] else [[0, 1], [10, 11]]),
             next_addr = 2\<rparr>"
  have h: "\<forall>(k, a) \<in> set ?obj. a < next_addr ?h" by simp
  have ev: "process_raw 1 Map.empty (Some ?obj) ?h =
      (Some [(''azimuth'', 2), (''reflectivity'', 3)],
       \<lparr>mem = (\<lambda>a. if a = 0 then [[10, 10]] else [[0, 1], [10, 11]])
                (2 := [[10, 10]], 3 := [[0, 1], [10, 11]]), next_addr = 4\<rparr>)"
    by (simp add: process_raw_def deepcopy_def Let_def numeral_2_eq_2 numeral_3_eq_3)
  show ?thesis
    using process_raw_returns_independent_copy [OF h, of Map.empty]
    unfolding ev by simp
qed

subsection \<open>C10: the selected ray may lie outside the tolerances\<close>

text \<open>
  Claim C10.  Let the external functions resolve some data type descriptor and
  convert the time 0, and let \<^verbatim>\<open>(r, az, el)\<close> be the antenna coordinates of a request
  \<^verbatim>\<open>(lon, lat, alt)\<close> from a radar at \<^verbatim>\<open>(lon0, lat0, alt0)\<close>.  Let the float arithmetic
  be exact on the operands of the instance, as float64 is when \<^verbatim>\<open>az\<close> and \<^verbatim>\<open>el\<close> are
  whole numbers of moderate size: \<open>u - u = 0\<close>, the absolute value, the differences
  \<open>(az + 10) - az\<close>, \<open>(az + 4) - az\<close>, \<open>(el + 10) - el\<close>, \<open>(el + 4) - el\<close> and the sums
  \<open>0 + 10\<close>, \<open>10 + 0\<close>, \<open>4 + 4\<close>.  Then there are a volume and a configuration for
  which the three minima, as the code computes them and as exact numbers, are within
  their tolerances and a record is returned, yet the azimuth of the selected ray
  differs from the requested azimuth by more than \<^verbatim>\<open>AziTol\<close> (and its elevation from
  the requested elevation by more than \<^verbatim>\<open>EleTol\<close>): with the rays \<^verbatim>\<open>(az, el + 10)\<close>,
  \<^verbatim>\<open>(az + 10, el)\<close> and \<^verbatim>\<open>(az + 4, el + 4)\<close> and tolerances of 1, each axis has a ray
  at distance 0, and the sum selects the third ray.
\<close>

theorem joint_argmin_may_exceed_tolerance:
  assumes "get_datatype_fields ext d = Inr (datagroup, datatype, dataset, product)"
    and "get_fieldname_pyart ext datatype = Inr field_name"
    and "num2date ext 0 units calendar = Inr tm"
    and "geographic_to_cartesian ext lon lat
          \<lparr>proj = ''pyart_aeqd'', lon_0 = lon0, lat_0 = lat0\<rparr> = (x, y)"
    and "cartesian_to_antenna ext x y (alt - alt0) = (r, az, el)"
    and "\<forall>u. float_sub ext u u = 0"
    and "\<forall>u. float_abs ext u = \<bar>u\<bar>"
    and "float_sub ext (az + 10) az = 10" and "float_sub ext (az + 4) az = 4"
    and "float_sub ext (el + 10) el = 10" and "float_sub ext (el + 4) el = 4"
    and "float_add ext 0 10 = 10" and "float_add ext 10 0 = 10" and "float_add ext 4 4 = 8"
  shows "\<exists>dscfg rd AziTol EleTol RngTol rec.
      length (elevation_data rd) = length (azimuth_data rd)
    \<and> target_coordinates ext dscfg rd = Inr (lon, lat, alt, r, az, el)
    \<and> dscfg ''AziTol'' = Some (PyFloat AziTol)
    \<and> dscfg ''EleTol'' = Some (PyFloat EleTol)
    \<and> dscfg ''RngTol'' = Some (PyFloat RngTol)
    \<and> Min ((\<lambda>a. float_abs ext (float_sub ext a az)) ` set (azimuth_data rd)) \<le> AziTol
    \<and> Min ((\<lambda>e. float_abs ext (float_sub ext e el)) ` set (elevation_data rd)) \<le> EleTol
    \<and> Min ((\<lambda>x. float_abs ext (float_sub ext x r)) ` set (range_data rd)) \<le> RngTol
    \<and> Min ((\<lambda>a. \<bar>a - az\<bar>) ` set (azimuth_data rd)) \<le> AziTol
    \<and> Min ((\<lambda>e. \<bar>e - el\<bar>) ` set (elevation_data rd)) \<le> EleTol
    \<and> Min ((\<lambda>x. \<bar>x - r\<bar>) ` set (range_data rd)) \<le> RngTol
    \<and> process_point_measurement ext 1 dscfg (Some rd) = Inr ([], Some rec)
    \<and> antenna_coordinates_az_el_r rec = [az, el, r]
    \<and> \<bar>used_antenna_coordinates_az_el_r rec ! 0 - az\<bar> > AziTol
    \<and> \<bar>used_antenna_coordinates_az_el_r rec ! 1 - el\<bar> > EleTol"
proof -
  define rd where "rd = \<lparr>fields_data = [field_name \<mapsto> [[0], [0], [0 :: real]]],
      longitude_data = lon0, latitude_data = lat0, altitude_data = alt0,
      azimuth_data = [az, az + 10, az + 4], elevation_data = [el + 10, el, el + 4],
      range_data = [r], time_data = [0, 0, 0],
      time_units = units, time_calendar = calendar\<rparr>"
  define dscfg where "dscfg = [''datatype'' \<mapsto> PyStrList [d], ''latlon'' \<mapsto> PyBool True,
      ''truealt'' \<mapsto> PyBool True, ''lon'' \<mapsto> PyFloat lon, ''lat'' \<mapsto> PyFloat lat,
      ''alt'' \<mapsto> PyFloat alt, ''AziTol'' \<mapsto> PyFloat 1, ''EleTol'' \<mapsto> PyFloat 1,
      ''RngTol'' \<mapsto> PyFloat 1]"
  define rec where "rec = \<lparr>value_k = 0, datatype_k = datatype, time_k = tm,
      point_coordinates_WGS84_lon_lat_alt = [lon, lat, alt],
      antenna_coordinates_az_el_r = [az, el, r],
      used_antenna_coordinates_az_el_r = [az + 4, el + 4, r]\<rparr>"
  note fl = assms(6) [rule_format] assms(7) [rule_format] assms(8-14)
  have tc: "target_coordinates ext dscfg rd = Inr (lon, lat, alt, r, az, el)"
    by (rule target_coordinates_truealt [where x = x and y = y])
       (simp_all add: dscfg_def rd_def assms(4) assms(5))
  have d1: "dscfg ''datatype'' = Some (PyStrList (d # []))" by (simp add: dscfg_def)
  have f: "fields_data rd field_name = Some [[0], [0], [0]]" by (simp add: rd_def)
  have tols: "dscfg ''AziTol'' = Some (PyFloat 1)" "dscfg ''EleTol'' = Some (PyFloat 1)"
    "dscfg ''RngTol'' = Some (PyFloat 1)"
    by (simp_all add: dscfg_def)
  have run: "process_point_measurement ext 1 dscfg (Some rd) = Inr ([], Some rec)"
    unfolding process_phase_bin_resolution
      [where dscfg = dscfg and ext = ext and rd = rd, OF d1 assms(1) assms(2) f tc]
    using assms(3)
    by (simp add: resolve_bin_def get_float_def tols bindE_Inr np_add_def getitem_def
        getitem2_def rd_def rec_def fl)
  have fmins: "Min ((\<lambda>a. float_abs ext (float_sub ext a az)) ` set (azimuth_data rd)) \<le> 1"
     "Min ((\<lambda>e. float_abs ext (float_sub ext e el)) ` set (elevation_data rd)) \<le> 1"
     "Min ((\<lambda>x. float_abs ext (float_sub ext x r)) ` set (range_data rd)) \<le> 1"
    by (simp_all add: rd_def fl)
  have mins: "Min ((\<lambda>a. \<bar>a - az\<bar>) ` set (azimuth_data rd)) \<le> 1"
     "Min ((\<lambda>e. \<bar>e - el\<bar>) ` set (elevation_data rd)) \<le> 1"
     "Min ((\<lambda>x. \<bar>x - r\<bar>) ` set (range_data rd)) \<le> 1"
    by (simp_all add: rd_def)
  have len: "length (elevation_data rd) = length (azimuth_data rd)" by (simp add: rd_def)
  have dev: "antenna_coordinates_az_el_r rec = [az, el, r]"
    "\<bar>used_antenna_coordinates_az_el_r rec ! 0 - az\<bar> > 1"
    "\<bar>used_antenna_coordinates_az_el_r rec ! 1 - el\<bar> > 1"
    by (simp_all add: rec_def)
  from len tc tols fmins mins run dev show ?thesis by blast
qed

text \<open>
  C10 for the sample external functions, at the request \<^verbatim>\<open>(az, el, r) = (30, 2, 1000)\<close>.
\<close>

theorem joint_argmin_may_exceed_tolerance_witness:
  "\<exists>dscfg rd AziTol EleTol RngTol rec.
      length (elevation_data rd) = length (azimuth_data rd)
    \<and> target_coordinates sample_externals dscfg rd = Inr (30, 2, 1000, 1000, 30, 2)
    \<and> dscfg ''AziTol'' = Some (PyFloat AziTol)
    \<and> dscfg ''EleTol'' = Some (PyFloat EleTol)
    \<and> dscfg ''RngTol'' = Some (PyFloat RngTol)
    \<and> Min ((\<lambda>a. float_abs sample_externals (float_sub sample_externals a 30))
              ` set (azimuth_data rd)) \<le> AziTol
    \<and> Min ((\<lambda>e. float_abs sample_externals (float_sub sample_externals e 2))
              ` set (elevation_data rd)) \<le> EleTol
    \<and> Min ((\<lambda>x. float_abs sample_externals (float_sub sample_externals x 1000))
              ` set (range_data rd)) \<le> RngTol
    \<and> Min ((\<lambda>a. \<bar>a - 30\<bar>) ` set (azimuth_data rd)) \<le> AziTol
    \<and> Min ((\<lambda>e. \<bar>e - 2\<bar>) ` set (elevation_data rd)) \<le> EleTol
    \<and> Min ((\<lambda>x. \<bar>x - 1000\<bar>) ` set (range_data rd)) \<le> RngTol
    \<and> process_point_measurement sample_externals 1 dscfg (Some rd) = Inr ([], Some rec)
    \<and> antenna_coordinates_az_el_r rec = [30, 2, 1000]
    \<and> \<bar>used_antenna_coordinates_az_el_r rec ! 0 - 30\<bar> > AziTol
    \<and> \<bar>used_antenna_coordinates_az_el_r rec ! 1 - 2\<bar> > EleTol"
proof -
  note ev = sample_externals_simps sample_round_whole
  have h1: "get_datatype_fields sample_externals ''dBZ'' = Inr (''RADAR'', ''dBZ'', ''D'', ''P'')"
    and h2: "get_fieldname_pyart sample_externals ''dBZ'' = Inr ''reflectivity''"
    and h3: "num2date sample_externals 0 ''seconds since 2000-01-01T00:00:00Z'' ''gregorian''
              = Inr 0"
    and h4: "geographic_to_cartesian sample_externals 30 2
          \<lparr>proj = ''pyart_aeqd'', lon_0 = 0, lat_0 = 0\<rparr> = (30, 2)"
    and h5: "cartesian_to_antenna sample_externals 30 2 (1000 - 0) = (1000, 30, 2)"
    and h6: "\<forall>u. float_sub sample_externals u u = 0"
    and h7: "\<forall>u. float_abs sample_externals u = \<bar>u\<bar>"
    and h8: "float_sub sample_externals (30 + 10) 30 = 10"
    and h9: "float_sub sample_externals (30 + 4) 30 = 4"
    and h10: "float_sub sample_externals (2 + 10) 2 = 10"
    and h11: "float_sub sample_externals (2 + 4) 2 = 4"
    and h12: "float_add sample_externals 0 10 = 10"
    and h13: "float_add sample_externals 10 0 = 10"
    and h14: "float_add sample_externals 4 4 = 8"
    by (simp_all add: ev)
  show ?thesis
    by (rule joint_argmin_may_exceed_tolerance
          [OF h1 h2 h3 h4 h5 h6 h7 h8 h9 h10 h11 h12 h13 h14])
qed

end
